theory Spec2Isabelle
  imports Main "HOL-Library.AList" "HOL-Library.Multiset" "HOL-Library.Word"
begin

section \<open>Values of a parsed document\<close>

text \<open>
  \<^verbatim>\<open>yaml.load\<close> returns an untyped JavaScript value which the loaders cast to their
  schema interfaces without any check. The model keeps the value untyped, so that every
  test the loaders make on it (\<^verbatim>\<open>!data\<close>, \<^verbatim>\<open>typeof x !== 'object'\<close>,
  \<^verbatim>\<open>Array.isArray\<close>) is a computation on the value and every property read on
  \<^verbatim>\<open>null\<close> or \<^verbatim>\<open>undefined\<close> is a \<open>TypeError\<close>.

  A number is one of two things. \<open>JNum n\<close> is an integer from \<open>-2\<^sup>5\<^sup>3\<close> up to
  \<open>2\<^sup>5\<^sup>3 - 1\<close>: a 54-bit word read as a signed number, so that no other integer has a
  value of this form. Every other number (a fraction, a larger integer, an infinity,
  \<^verbatim>\<open>NaN\<close>) is \<open>JFloat s\<close>, where \<open>s\<close> is the text that \<^verbatim>\<open>Number.prototype.toString\<close>
  gives for it; that text determines the number.

  Strings are lists of code units below 256. An object is the list of its own properties
  in insertion order, the first entry of a key being the property; the parser gives every
  object the prototype \<^verbatim>\<open>Object.prototype\<close>. No two values share a reference.
\<close>

datatype jsval =
    JUndefined
  | JNull
  | JBool bool
  | JNum "54 word"
  | JFloat string
  | JStr string
  | JArr "jsval list"
  | JObj "(string \<times> jsval) list"

datatype error =
    Error string
  | TypeError
  | URIError
  | YAMLException
  | FetchRejected

text \<open>A thrown exception is the left summand of a result.\<close>

definition bindE :: "error + 'a \<Rightarrow> ('a \<Rightarrow> error + 'b) \<Rightarrow> error + 'b" where
  "bindE m f = (case m of Inl e \<Rightarrow> Inl e | Inr v \<Rightarrow> f v)"

fun truthy :: "jsval \<Rightarrow> bool" where
  "truthy JUndefined = False"
| "truthy JNull = False"
| "truthy (JBool b) = b"
| "truthy (JNum n) = (n \<noteq> 0)"
| "truthy (JFloat s) = (s \<noteq> ''NaN'')"
| "truthy (JStr s) = (s \<noteq> [])"
| "truthy (JArr xs) = True"
| "truthy (JObj kvs) = True"

fun typeof_object :: "jsval \<Rightarrow> bool" where
  "typeof_object JNull = True"
| "typeof_object (JArr xs) = True"
| "typeof_object (JObj kvs) = True"
| "typeof_object v = False"

fun isArray :: "jsval \<Rightarrow> bool" where
  "isArray (JArr xs) = True"
| "isArray v = False"

subsection \<open>Numbers and strings\<close>

definition digit_char :: "nat \<Rightarrow> char" where
  "digit_char d = ''0123456789'' ! (d mod 10)"

fun show_nat :: "nat \<Rightarrow> string" where
  "show_nat n = (if n < 10 then [digit_char n] else show_nat (n div 10) @ [digit_char (n mod 10)])"

declare show_nat.simps [simp del]

definition show_int :: "int \<Rightarrow> string" where
  "show_int i = (if i < 0 then CHR ''-'' # show_nat (nat (- i)) else show_nat (nat i))"

definition is_digit :: "char \<Rightarrow> bool" where
  "is_digit c = (48 \<le> (of_char c :: nat) \<and> (of_char c :: nat) \<le> 57)"

definition parse_nat :: "string \<Rightarrow> nat" where
  "parse_nat s = foldl (\<lambda>acc c. 10 * acc + ((of_char c :: nat) - 48)) 0 s"

text \<open>An array index is the canonical decimal form of an integer below \<open>2\<^sup>3\<^sup>2 - 1\<close>.\<close>

definition is_array_index :: "string \<Rightarrow> bool" where
  "is_array_index s = (s \<noteq> [] \<and> list_all is_digit s \<and> show_nat (parse_nat s) = s \<and> parse_nat s < 4294967295)"

definition join_comma :: "string list \<Rightarrow> string" where
  "join_comma ss = (case ss of [] \<Rightarrow> [] | s # rest \<Rightarrow> foldl (\<lambda>acc t. acc @ CHR '','' # t) s rest)"

text \<open>
  String conversion (\<^verbatim>\<open>ToString\<close>), as a template literal and a property key apply it.
  An integer of the safe range is printed in decimal form. An array is converted by
  \<^verbatim>\<open>join\<close>, which converts its elements and prints \<^verbatim>\<open>null\<close> and \<^verbatim>\<open>undefined\<close> as
  the empty string. A plain object is converted by the \<^verbatim>\<open>toString\<close> it inherits,
  unless it has a property of that name itself: a parsed value is never a function, the
  inherited \<^verbatim>\<open>valueOf\<close> returns the object, and the conversion throws a
  \<open>TypeError\<close>.
\<close>

fun js_to_string :: "jsval \<Rightarrow> error + string"
  and join_elements :: "jsval list \<Rightarrow> error + string list" where
  "js_to_string JUndefined = Inr ''undefined''"
| "js_to_string JNull = Inr ''null''"
| "js_to_string (JBool b) = Inr (if b then ''true'' else ''false'')"
| "js_to_string (JNum n) = Inr (show_int (sint n))"
| "js_to_string (JFloat s) = Inr s"
| "js_to_string (JStr s) = Inr s"
| "js_to_string (JArr xs) =
     (case join_elements xs of Inl e \<Rightarrow> Inl e | Inr ss \<Rightarrow> Inr (join_comma ss))"
| "js_to_string (JObj kvs) =
     (if map_of kvs ''toString'' = None then Inr ''[object Object]'' else Inl TypeError)"
| "join_elements [] = Inr []"
| "join_elements (x # xs) =
     (case (if x = JUndefined \<or> x = JNull then Inr [] else js_to_string x) of
        Inl e \<Rightarrow> Inl e
      | Inr s \<Rightarrow> (case join_elements xs of Inl e \<Rightarrow> Inl e | Inr ss \<Rightarrow> Inr (s # ss)))"

definition is_whitespace :: "char \<Rightarrow> bool" where
  "is_whitespace c = ((of_char c :: nat) \<in> {9, 10, 11, 12, 13, 32, 160})"

definition trim :: "string \<Rightarrow> string" where
  "trim s = rev (dropWhile is_whitespace (rev (dropWhile is_whitespace s)))"

definition lower_char :: "char \<Rightarrow> char" where
  "lower_char c =
     (let n = (of_char c :: nat)
      in if (65 \<le> n \<and> n \<le> 90) \<or> (192 \<le> n \<and> n \<le> 222 \<and> n \<noteq> 215) then char_of (n + 32) else c)"

definition toLowerCase :: "string \<Rightarrow> string" where
  "toLowerCase s = map lower_char s"

text \<open>
  \<^verbatim>\<open>v.trim()\<close> for a parsed value: only a string has the method; on every other value
  the call throws a \<open>TypeError\<close>.
\<close>

fun js_trim :: "jsval \<Rightarrow> error + string" where
  "js_trim (JStr s) = Inr (trim s)"
| "js_trim v = Inl TypeError"

subsection \<open>Members inherited from the standard prototypes\<close>

text \<open>
  A property that a value does not have itself is looked up in its prototype: a plain
  object inherits from \<^verbatim>\<open>Object.prototype\<close>; an array, a string, a number and a boolean
  inherit from the prototype of their kind and, behind it, from \<^verbatim>\<open>Object.prototype\<close>.
  The lists are the string-named members that ECMAScript 2024 defines, with the additions
  for web browsers of its Annex B. All of them are functions, except the accessor
  \<^verbatim>\<open>__proto__\<close>, which gives the prototype object of the value.
\<close>

datatype kind = ObjectK | ArrayK | StringK | NumberK | BooleanK

fun prototype_members :: "kind \<Rightarrow> string list" where
  "prototype_members ObjectK =
     [''constructor'', ''hasOwnProperty'', ''isPrototypeOf'', ''propertyIsEnumerable'',
      ''toLocaleString'', ''toString'', ''valueOf'', ''__defineGetter__'', ''__defineSetter__'',
      ''__lookupGetter__'', ''__lookupSetter__'']"
| "prototype_members ArrayK =
     [''at'', ''concat'', ''constructor'', ''copyWithin'', ''entries'', ''every'', ''fill'',
      ''filter'', ''find'', ''findIndex'', ''findLast'', ''findLastIndex'', ''flat'', ''flatMap'',
      ''forEach'', ''includes'', ''indexOf'', ''join'', ''keys'', ''lastIndexOf'', ''map'', ''pop'',
      ''push'', ''reduce'', ''reduceRight'', ''reverse'', ''shift'', ''slice'', ''some'', ''sort'',
      ''splice'', ''toLocaleString'', ''toReversed'', ''toSorted'', ''toSpliced'', ''toString'',
      ''unshift'', ''values'', ''with'']"
| "prototype_members StringK =
     [''anchor'', ''at'', ''big'', ''blink'', ''bold'', ''charAt'', ''charCodeAt'', ''codePointAt'',
      ''concat'', ''constructor'', ''endsWith'', ''fixed'', ''fontcolor'', ''fontsize'',
      ''includes'', ''indexOf'', ''isWellFormed'', ''italics'', ''lastIndexOf'', ''link'',
      ''localeCompare'', ''match'', ''matchAll'', ''normalize'', ''padEnd'', ''padStart'',
      ''repeat'', ''replace'', ''replaceAll'', ''search'', ''slice'', ''small'', ''split'',
      ''startsWith'', ''strike'', ''sub'', ''substr'', ''substring'', ''sup'',
      ''toLocaleLowerCase'', ''toLocaleUpperCase'', ''toLowerCase'', ''toString'',
      ''toUpperCase'', ''toWellFormed'', ''trim'', ''trimEnd'', ''trimLeft'', ''trimRight'',
      ''trimStart'', ''valueOf'']"
| "prototype_members NumberK =
     [''constructor'', ''toExponential'', ''toFixed'', ''toLocaleString'', ''toPrecision'',
      ''toString'', ''valueOf'']"
| "prototype_members BooleanK = [''constructor'', ''toString'', ''valueOf'']"

text \<open>
  A built-in object that a property read can return: the prototype object of a kind, or
  the function that is the named member of the prototype of a kind.
\<close>

datatype builtin =
    Prototype kind
  | Method kind string

text \<open>What a property read returns: a value of the document, or a built-in object.\<close>

datatype anyval =
    Data jsval
  | Builtin builtin

definition inherited :: "kind \<Rightarrow> string \<Rightarrow> anyval" where
  "inherited K k =
     (if k = ''__proto__'' then Builtin (Prototype K)
      else if k \<in> set (prototype_members K) then Builtin (Method K k)
      else if k \<in> set (prototype_members ObjectK) then Builtin (Method ObjectK k)
      else Data JUndefined)"

text \<open>Every built-in object is an object or a function, and so truthy.\<close>

fun any_truthy :: "anyval \<Rightarrow> bool" where
  "any_truthy (Data v) = truthy v"
| "any_truthy (Builtin b) = True"

text \<open>\<^verbatim>\<open>typeof v === 'object'\<close>; for a function \<^verbatim>\<open>typeof\<close> gives \<^verbatim>\<open>'function'\<close>.\<close>

fun any_typeof_object :: "anyval \<Rightarrow> bool" where
  "any_typeof_object (Data v) = typeof_object v"
| "any_typeof_object (Builtin (Prototype K)) = True"
| "any_typeof_object (Builtin (Method K k)) = False"

text \<open>
  The name of a built-in function: \<^verbatim>\<open>constructor\<close> is the constructor of the kind, and
  \<^verbatim>\<open>trimLeft\<close> and \<^verbatim>\<open>trimRight\<close> are second names of \<^verbatim>\<open>trimStart\<close> and \<^verbatim>\<open>trimEnd\<close>.
\<close>

fun kind_name :: "kind \<Rightarrow> string" where
  "kind_name ObjectK = ''Object''"
| "kind_name ArrayK = ''Array''"
| "kind_name StringK = ''String''"
| "kind_name NumberK = ''Number''"
| "kind_name BooleanK = ''Boolean''"

definition function_name :: "kind \<Rightarrow> string \<Rightarrow> string" where
  "function_name K k =
     (if k = ''constructor'' then kind_name K
      else if k = ''trimLeft'' then ''trimStart''
      else if k = ''trimRight'' then ''trimEnd''
      else k)"

text \<open>
  String conversion of a built-in object. \<^verbatim>\<open>Array.prototype\<close> is an empty array,
  \<^verbatim>\<open>String.prototype\<close> wraps the empty string, \<^verbatim>\<open>Number.prototype\<close> wraps 0 and
  \<^verbatim>\<open>Boolean.prototype\<close> wraps \<^verbatim>\<open>false\<close>. The text of a built-in function is left to
  the implementation by the language; it is given as the V8 engine prints it.
\<close>

fun builtin_to_string :: "builtin \<Rightarrow> string" where
  "builtin_to_string (Prototype ObjectK) = ''[object Object]''"
| "builtin_to_string (Prototype ArrayK) = []"
| "builtin_to_string (Prototype StringK) = []"
| "builtin_to_string (Prototype NumberK) = ''0''"
| "builtin_to_string (Prototype BooleanK) = ''false''"
| "builtin_to_string (Method K k) = ''function '' @ function_name K k @ ''() { [native code] }''"

fun any_to_string :: "anyval \<Rightarrow> error + string" where
  "any_to_string (Data v) = js_to_string v"
| "any_to_string (Builtin b) = Inr (builtin_to_string b)"

subsection \<open>Property reads\<close>

text \<open>
  Own properties are enumerated with the array indices first, in ascending order, and the
  other keys after them in insertion order.
\<close>

definition own_entries :: "(string \<times> 'v) list \<Rightarrow> (string \<times> 'v) list" where
  "own_entries kvs =
     (let es = AList.clearjunk kvs
      in sort_key (\<lambda>e. parse_nat (fst e)) (filter (\<lambda>e. is_array_index (fst e)) es)
         @ filter (\<lambda>e. \<not> is_array_index (fst e)) es)"

text \<open>
  \<^verbatim>\<open>v[k]\<close> for a parsed value \<open>v\<close> and a computed key \<open>k\<close>: an own property first (for an
  array and a string: an index below the length, and \<^verbatim>\<open>length\<close>, which is below
  \<open>2\<^sup>3\<^sup>2\<close>), then the prototypes.
\<close>

fun js_get :: "jsval \<Rightarrow> string \<Rightarrow> error + anyval" where
  "js_get JUndefined k = Inl TypeError"
| "js_get JNull k = Inl TypeError"
| "js_get (JObj kvs) k = Inr (case map_of kvs k of Some v \<Rightarrow> Data v | None \<Rightarrow> inherited ObjectK k)"
| "js_get (JArr xs) k =
     Inr (if is_array_index k \<and> parse_nat k < length xs then Data (xs ! parse_nat k)
          else if k = ''length'' then Data (JNum (of_nat (length xs)))
          else inherited ArrayK k)"
| "js_get (JStr s) k =
     Inr (if is_array_index k \<and> parse_nat k < length s then Data (JStr [s ! parse_nat k])
          else if k = ''length'' then Data (JNum (of_nat (length s)))
          else inherited StringK k)"
| "js_get (JBool b) k = Inr (inherited BooleanK k)"
| "js_get (JNum n) k = Inr (inherited NumberK k)"
| "js_get (JFloat s) k = Inr (inherited NumberK k)"

text \<open>
  The property names that the loaders write as identifiers. None of them is an index,
  \<^verbatim>\<open>length\<close> or a member of a prototype or of a built-in function, so a read by one
  of these names gives an own property of a parsed object and \<^verbatim>\<open>undefined\<close> in every
  other case.
\<close>

datatype field =
    F_categories
  | F_prompts
  | F_en
  | F_id
  | F_translations
  | F_category_id
  | F_category
  | F_prompt
  | F_purpose

fun field_name :: "field \<Rightarrow> string" where
  "field_name F_categories = ''categories''"
| "field_name F_prompts = ''prompts''"
| "field_name F_en = ''en''"
| "field_name F_id = ''id''"
| "field_name F_translations = ''translations''"
| "field_name F_category_id = ''category_id''"
| "field_name F_category = ''category''"
| "field_name F_prompt = ''prompt''"
| "field_name F_purpose = ''purpose''"

text \<open>\<^verbatim>\<open>v.name\<close> for a parsed value \<open>v\<close>.\<close>

fun js_field :: "jsval \<Rightarrow> field \<Rightarrow> error + jsval" where
  "js_field JUndefined f = Inl TypeError"
| "js_field JNull f = Inl TypeError"
| "js_field (JObj kvs) f = Inr (case map_of kvs (field_name f) of Some v \<Rightarrow> v | None \<Rightarrow> JUndefined)"
| "js_field v f = Inr JUndefined"

text \<open>\<^verbatim>\<open>v.name\<close> for the result of a computed read.\<close>

fun any_field :: "anyval \<Rightarrow> field \<Rightarrow> error + jsval" where
  "any_field (Data v) f = js_field v f"
| "any_field (Builtin b) f = Inr JUndefined"

text \<open>\<^verbatim>\<open>Object.entries(v)\<close>.\<close>

fun js_entries :: "jsval \<Rightarrow> error + (string \<times> jsval) list" where
  "js_entries JUndefined = Inl TypeError"
| "js_entries JNull = Inl TypeError"
| "js_entries (JObj kvs) = Inr (own_entries kvs)"
| "js_entries (JArr xs) = Inr (zip (map show_nat [0..<length xs]) xs)"
| "js_entries (JStr s) = Inr (zip (map show_nat [0..<length s]) (map (\<lambda>c. JStr [c]) s))"
| "js_entries v = Inr []"

section \<open>The canonical data model (types.ts)\<close>

text \<open>
  The interface declares \<^verbatim>\<open>id\<close> and \<^verbatim>\<open>category\<close> as strings. The legacy loader stores
  whatever the document holds, and a category name comes from a computed read, so the
  two fields carry a value. The texts have gone through \<^verbatim>\<open>trim()\<close> and are strings.
\<close>

record Prompt =
  id_field :: jsval
  category :: anyval
  prompt :: string
  purpose :: string

text \<open>A \<^verbatim>\<open>CategoryGroup\<close> object: its own keys in insertion order.\<close>

type_synonym CategoryGroup = "(string \<times> Prompt list) list"

text \<open>
  A \<^verbatim>\<open>CategoryGroup\<close> is created as \<^verbatim>\<open>{}\<close> and inherits from \<^verbatim>\<open>Object.prototype\<close>:
  \<^verbatim>\<open>groups[k]\<close> is the list stored under \<open>k\<close>, a built-in object for a key that only the
  prototype has, and \<^verbatim>\<open>undefined\<close> otherwise.
\<close>

datatype group_member =
    Group "Prompt list"
  | Inherited builtin
  | Missing

definition group_get :: "CategoryGroup \<Rightarrow> string \<Rightarrow> group_member" where
  "group_get groups k =
     (case map_of groups k of
        Some prompts \<Rightarrow> Group prompts
      | None \<Rightarrow> (case inherited ObjectK k of Builtin b \<Rightarrow> Inherited b | Data v \<Rightarrow> Missing))"

section \<open>Random selection (yaml-parser.ts)\<close>

text \<open>
  A number of the type \<^verbatim>\<open>number\<close> is a double: a significand of at most 53 binary
  digits, scaled by a power of two. \<^verbatim>\<open>Math.random()\<close> returns a double that is at least
  0 and less than 1; the record stands for \<open>significand / 2\<^bsup>scale\<^esup>\<close>, and every double of
  that range has this form with a scale of at most 1074.
\<close>

record Double =
  significand :: nat
  scale :: nat

definition precision :: nat where
  "precision = 53"

definition unit_double :: "Double \<Rightarrow> bool" where
  "unit_double r = (significand r < 2 ^ precision \<and> significand r < 2 ^ scale r \<and> scale r \<le> 1074)"

fun bit_length :: "nat \<Rightarrow> nat" where
  "bit_length n = (if n = 0 then 0 else Suc (bit_length (n div 2)))"

declare bit_length.simps [simp del]

text \<open>
  Rounding of a natural number to 53 significant binary digits, to the nearest such
  number and, halfway between two, to the one with an even significand.
\<close>

definition round53 :: "nat \<Rightarrow> nat" where
  "round53 m =
     (if bit_length m \<le> precision then m
      else
        let s = bit_length m - precision; q = m div 2 ^ s; rest = m mod 2 ^ s; half = 2 ^ (s - 1)
        in (if half < rest \<or> (rest = half \<and> odd q) then q + 1 else q) * 2 ^ s)"

text \<open>
  \<^verbatim>\<open>Math.floor(Math.random() * prompts.length)\<close>. The length \<open>n\<close> of an array is below
  \<open>2\<^sup>3\<^sup>2\<close> and a double itself. The exact product is \<open>significand * n / 2\<^bsup>scale\<^esup>\<close>; the
  multiplication returns it rounded to a double, which is the rounding of the numerator
  (the result is at least \<open>2\<^sup>-\<^sup>1\<^sup>0\<^sup>7\<^sup>4\<close> or zero, and below \<open>2\<^sup>3\<^sup>2\<close>, so neither
  the smallest nor the largest exponent of a double cuts it). \<^verbatim>\<open>Math.floor\<close> of the
  rounded product is the integer quotient.
\<close>

definition random_index :: "Double \<Rightarrow> nat \<Rightarrow> nat" where
  "random_index r n = round53 (significand r * n) div 2 ^ scale r"

text \<open>
  \<^verbatim>\<open>getRandomPrompt\<close> with the result \<open>r\<close> of \<^verbatim>\<open>Math.random()\<close> as an argument. A read
  past the end of the array gives \<^verbatim>\<open>undefined\<close>, here \<open>None\<close>.
\<close>

definition getRandomPrompt :: "Prompt list \<Rightarrow> Double \<Rightarrow> Prompt option" where
  "getRandomPrompt prompts r =
     (let randomIndex = random_index r (length prompts)
      in if randomIndex < length prompts then Some (prompts ! randomIndex) else None)"

section \<open>Loading and normalising (yaml-parser.ts)\<close>

text \<open>
  The two collaborators of the loaders are arguments: \<open>yaml_load\<close> stands for
  \<^verbatim>\<open>yaml.load\<close> (a value, or a \<open>YAMLException\<close>) and \<open>fetch\<close> for the browser's
  \<^verbatim>\<open>fetch\<close> (a response, or a rejection). A call to \<^verbatim>\<open>console.warn\<close> has no effect on
  the result, but its argument is evaluated: where that is a template literal over values
  of the document, the string conversions are part of the model.
\<close>

text \<open>A loop that appends what each element contributes and stops at the first exception.\<close>

fun collect :: "('a \<Rightarrow> error + 'b list) \<Rightarrow> 'a list \<Rightarrow> error + 'b list" where
  "collect f [] = Inr []"
| "collect f (x # xs) = bindE (f x) (\<lambda>ys. bindE (collect f xs) (\<lambda>zs. Inr (ys @ zs)))"

record Response =
  ok :: bool
  statusText :: string
  body :: string

fun array_elems :: "jsval \<Rightarrow> jsval list" where
  "array_elems (JArr xs) = xs"
| "array_elems v = []"

subsection \<open>Grouping by category\<close>

text \<open>
  One step of \<^verbatim>\<open>prompts.forEach\<close>. The key is the category converted to a property key.
  A key the object has keeps its place and gets the prompt appended; a key that only the
  prototype has reads as a built-in object, which is truthy and has no \<^verbatim>\<open>push\<close>, so
  the call throws; any other key is added last.
\<close>

definition push_group :: "CategoryGroup \<Rightarrow> Prompt \<Rightarrow> error + CategoryGroup" where
  "push_group grouped p =
     bindE (any_to_string (category p)) (\<lambda>k.
       case group_get grouped k of
         Group prompts \<Rightarrow> Inr (AList.update k (prompts @ [p]) grouped)
       | Inherited b \<Rightarrow> Inl TypeError
       | Missing \<Rightarrow> Inr (grouped @ [(k, [p])]))"

fun group_into :: "CategoryGroup \<Rightarrow> Prompt list \<Rightarrow> error + CategoryGroup" where
  "group_into grouped [] = Inr grouped"
| "group_into grouped (p # ps) = bindE (push_group grouped p) (\<lambda>g. group_into g ps)"

definition group_prompts :: "Prompt list \<Rightarrow> error + CategoryGroup" where
  "group_prompts prompts = group_into [] prompts"

text \<open>All prompts of a group object, category after category.\<close>

definition all_prompts :: "CategoryGroup \<Rightarrow> Prompt list" where
  "all_prompts g = concat (map snd g)"

subsection \<open>The object literal of a prompt\<close>

text \<open>
  \<^verbatim>\<open>{ id: ..., category: ..., prompt: t.prompt.trim(), purpose: t.purpose.trim() }\<close> for a
  translation \<open>t\<close>.
\<close>

definition make_prompt :: "jsval \<Rightarrow> anyval \<Rightarrow> anyval \<Rightarrow> error + Prompt" where
  "make_prompt i c t =
     bindE (any_field t F_prompt) (\<lambda>p.
     bindE (js_trim p) (\<lambda>p'.
     bindE (any_field t F_purpose) (\<lambda>q.
     bindE (js_trim q) (\<lambda>q'.
     Inr \<lparr>id_field = i, category = c, prompt = p', purpose = q'\<rparr>))))"

text \<open>The template literal \<^verbatim>\<open>`${a}${b}`\<close>.\<close>

definition template2 :: "jsval \<Rightarrow> jsval \<Rightarrow> error + string" where
  "template2 a b = bindE (js_to_string a) (\<lambda>s. bindE (js_to_string b) (\<lambda>t. Inr (s @ t)))"

text \<open>The category name \<^verbatim>\<open>translated || english || id\<close>: the first truthy one, or the id.\<close>

definition category_name :: "anyval \<Rightarrow> jsval \<Rightarrow> jsval \<Rightarrow> anyval" where
  "category_name n1 n2 c = (if any_truthy n1 then n1 else if truthy n2 then Data n2 else Data c)"

subsection \<open>Clean structure\<close>

text \<open>The test of lines 75 and 78 on a translation.\<close>

definition usable_translation :: "anyval \<Rightarrow> bool" where
  "usable_translation t =
     (any_truthy t \<and> any_typeof_object t
      \<and> (case any_field t F_prompt of Inl e \<Rightarrow> False | Inr p \<Rightarrow> truthy p)
      \<and> (case any_field t F_purpose of Inl e \<Rightarrow> False | Inr q \<Rightarrow> truthy q))"

text \<open>
  The body of the inner loop (lines 72 to 100): what one prompt adds to \<^verbatim>\<open>prompts\<close>.
  Both branches of the fallback evaluate the template literal of the id in their warning.
\<close>

definition clean_prompt :: "string \<Rightarrow> anyval \<Rightarrow> string \<Rightarrow> jsval \<Rightarrow> error + Prompt list" where
  "clean_prompt categoryId categoryName languageCode cleanPrompt =
     bindE (js_get cleanPrompt languageCode) (\<lambda>translation.
       if usable_translation translation
       then
         bindE (js_field cleanPrompt F_id) (\<lambda>i.
         bindE (template2 (JStr categoryId) i) (\<lambda>combined.
         bindE (make_prompt (JStr combined) categoryName translation) (\<lambda>p.
         Inr [p])))
       else
         bindE (js_field cleanPrompt F_en) (\<lambda>fallbackTranslation.
         bindE (js_field cleanPrompt F_id) (\<lambda>i.
         bindE (template2 (JStr categoryId) i) (\<lambda>combined.
           if usable_translation (Data fallbackTranslation)
           then
             bindE (make_prompt (JStr combined) categoryName (Data fallbackTranslation)) (\<lambda>p.
             Inr [p])
           else Inr []))))"

text \<open>The body of the outer loop (lines 61 to 101).\<close>

definition clean_category :: "string \<Rightarrow> string \<times> jsval \<Rightarrow> error + Prompt list" where
  "clean_category languageCode entry =
     (let categoryId = fst entry; category = snd entry
      in bindE (js_field category F_prompts) (\<lambda>ps.
           if truthy ps \<and> isArray ps
           then
             bindE (js_get category languageCode) (\<lambda>n1.
             bindE (js_field category F_en) (\<lambda>n2.
               let categoryName = category_name n1 n2 (JStr categoryId)
               in collect (clean_prompt categoryId categoryName languageCode) (array_elems ps)))
           else Inr []))"

text \<open>The array \<^verbatim>\<open>prompts\<close> at line 103, before grouping.\<close>

definition clean_prompts :: "(string \<Rightarrow> error + jsval) \<Rightarrow> string \<Rightarrow> string \<Rightarrow> error + Prompt list" where
  "clean_prompts yaml_load yamlText language =
     bindE (yaml_load yamlText) (\<lambda>data.
       if truthy data
       then
         bindE (js_field data F_categories) (\<lambda>cats.
           if truthy cats \<and> typeof_object cats
           then bindE (js_entries cats) (\<lambda>es. collect (clean_category (toLowerCase language)) es)
           else Inl (Error ''Invalid clean prompts data structure - missing categories''))
       else Inl (Error ''Invalid clean prompts data structure - missing categories''))"

definition loadPromptsFromCleanStructure ::
  "(string \<Rightarrow> error + jsval) \<Rightarrow> string \<Rightarrow> string \<Rightarrow> error + CategoryGroup" where
  "loadPromptsFromCleanStructure yaml_load yamlText language =
     bindE (clean_prompts yaml_load yamlText language) group_prompts"

subsection \<open>Nested structure\<close>

text \<open>
  The \<^verbatim>\<open>Map\<close> from category id to category. Keys are compared as \<^verbatim>\<open>Map\<close> does:
  primitives by value, arrays and objects by reference, and two parsed values never share
  one.
\<close>

fun is_primitive :: "jsval \<Rightarrow> bool" where
  "is_primitive (JArr xs) = False"
| "is_primitive (JObj kvs) = False"
| "is_primitive v = True"

definition same_key :: "jsval \<Rightarrow> jsval \<Rightarrow> bool" where
  "same_key a b = (is_primitive a \<and> a = b)"

definition map_set :: "(jsval \<times> jsval) list \<Rightarrow> jsval \<Rightarrow> jsval \<Rightarrow> (jsval \<times> jsval) list" where
  "map_set m k v =
     (if list_ex (\<lambda>e. same_key (fst e) k) m
      then map (\<lambda>e. if same_key (fst e) k then (fst e, v) else e) m
      else m @ [(k, v)])"

definition map_get :: "(jsval \<times> jsval) list \<Rightarrow> jsval \<Rightarrow> jsval" where
  "map_get m k = (case find (\<lambda>e. same_key (fst e) k) m of None \<Rightarrow> JUndefined | Some e \<Rightarrow> snd e)"

text \<open>Lines 126 to 129.\<close>

fun build_category_map :: "(jsval \<times> jsval) list \<Rightarrow> jsval list \<Rightarrow> error + (jsval \<times> jsval) list" where
  "build_category_map m [] = Inr m"
| "build_category_map m (c # cs) = bindE (js_field c F_id) (\<lambda>i. build_category_map (map_set m i c) cs)"

text \<open>
  The body of the loop of lines 131 to 169. The translation is read before the category
  is looked up, and every branch, the skip of line 137 included, evaluates the template
  literal of the id, in its warning or in the object literal.
\<close>

definition nested_prompt :: "(jsval \<times> jsval) list \<Rightarrow> string \<Rightarrow> jsval \<Rightarrow> error + Prompt list" where
  "nested_prompt categoryMap languageCode multiPrompt =
     bindE (js_field multiPrompt F_translations) (\<lambda>trs.
     bindE (js_get trs languageCode) (\<lambda>translation.
     bindE (js_field multiPrompt F_category_id) (\<lambda>cid.
     bindE (js_field multiPrompt F_id) (\<lambda>i.
       let category = map_get categoryMap cid
       in if truthy category
          then
            bindE (js_field category F_translations) (\<lambda>ctrs.
            bindE (js_get ctrs languageCode) (\<lambda>n1.
            bindE (js_field ctrs F_en) (\<lambda>n2.
              let categoryName = category_name n1 n2 cid
              in if any_truthy translation
                 then
                   bindE (template2 cid i) (\<lambda>combined.
                   bindE (make_prompt (JStr combined) categoryName translation) (\<lambda>p.
                   Inr [p]))
                 else
                   bindE (js_field trs F_en) (\<lambda>fallbackTranslation.
                   bindE (template2 cid i) (\<lambda>combined.
                     if truthy fallbackTranslation
                     then
                       bindE (make_prompt (JStr combined) categoryName (Data fallbackTranslation)) (\<lambda>p.
                       Inr [p])
                     else Inr [])))))
          else bindE (template2 cid i) (\<lambda>combined. Inr [])))))"

text \<open>The array \<^verbatim>\<open>prompts\<close> at line 171, before grouping.\<close>

definition nested_prompts :: "(string \<Rightarrow> error + jsval) \<Rightarrow> string \<Rightarrow> string \<Rightarrow> error + Prompt list" where
  "nested_prompts yaml_load yamlText language =
     bindE (yaml_load yamlText) (\<lambda>data.
       if truthy data
       then
         bindE (js_field data F_prompts) (\<lambda>ps.
         bindE (js_field data F_categories) (\<lambda>cats.
           if truthy ps \<and> isArray ps \<and> truthy cats \<and> isArray cats
           then
             bindE (build_category_map [] (array_elems cats)) (\<lambda>categoryMap.
             collect (nested_prompt categoryMap (toLowerCase language)) (array_elems ps))
           else Inl (Error ''Invalid nested prompts data structure - missing prompts or categories'')))
       else Inl (Error ''Invalid nested prompts data structure - missing prompts or categories''))"

definition loadPromptsFromNestedStructure ::
  "(string \<Rightarrow> error + jsval) \<Rightarrow> string \<Rightarrow> string \<Rightarrow> error + CategoryGroup" where
  "loadPromptsFromNestedStructure yaml_load yamlText language =
     bindE (nested_prompts yaml_load yamlText language) group_prompts"

subsection \<open>Legacy documents\<close>

text \<open>\<^verbatim>\<open>yamlText.split('---')\<close>; \<open>acc\<close> holds the current piece, reversed.\<close>

fun split_docs :: "string \<Rightarrow> string \<Rightarrow> string list" where
  "split_docs acc [] = [rev acc]"
| "split_docs acc (c # cs) =
     (if take 3 (c # cs) = ''---'' then rev acc # split_docs [] (drop 2 cs)
      else split_docs (c # acc) cs)"

text \<open>The function mapped over the documents (lines 192 to 200).\<close>

definition legacy_prompt :: "(string \<Rightarrow> error + jsval) \<Rightarrow> string \<Rightarrow> error + Prompt list" where
  "legacy_prompt yaml_load doc =
     bindE (yaml_load (trim doc)) (\<lambda>parsed.
     bindE (js_field parsed F_id) (\<lambda>i.
     bindE (js_field parsed F_category) (\<lambda>c.
     bindE (make_prompt i (Data c) (Data parsed)) (\<lambda>p.
     Inr [p]))))"

definition legacy_prompts ::
  "(string \<Rightarrow> error + Response) \<Rightarrow> (string \<Rightarrow> error + jsval) \<Rightarrow> string \<Rightarrow> error + Prompt list" where
  "legacy_prompts fetch yaml_load language =
     bindE (fetch (''./prompts_'' @ language @ ''.yaml'')) (\<lambda>response.
       if ok response
       then
         (let documents = filter (\<lambda>doc. trim doc \<noteq> []) (split_docs [] (body response))
          in collect (legacy_prompt yaml_load) documents)
       else Inl (Error (''Failed to fetch legacy prompts: '' @ statusText response)))"

definition loadPromptsLegacy ::
  "(string \<Rightarrow> error + Response) \<Rightarrow> (string \<Rightarrow> error + jsval) \<Rightarrow> string \<Rightarrow> error + CategoryGroup" where
  "loadPromptsLegacy fetch yaml_load language =
     bindE (legacy_prompts fetch yaml_load language) group_prompts"

subsection \<open>The loader chain\<close>

text \<open>\<^verbatim>\<open>try { return clean } catch { return nested }\<close> on the text of one fetched file.\<close>

definition loadPromptsFromUnified ::
  "(string \<Rightarrow> error + Response) \<Rightarrow> (string \<Rightarrow> error + jsval) \<Rightarrow> string \<Rightarrow> error + CategoryGroup" where
  "loadPromptsFromUnified fetch yaml_load language =
     bindE (fetch ''./journal-prompts.yaml'') (\<lambda>response.
       if ok response
       then
         (case loadPromptsFromCleanStructure yaml_load (body response) language of
            Inr grouped \<Rightarrow> Inr grouped
          | Inl cleanError \<Rightarrow> loadPromptsFromNestedStructure yaml_load (body response) language)
       else Inl (Error (''Failed to fetch unified prompts: '' @ statusText response)))"

text \<open>The outer \<^verbatim>\<open>catch\<close> logs the error and throws it again.\<close>

definition loadPrompts ::
  "(string \<Rightarrow> error + Response) \<Rightarrow> (string \<Rightarrow> error + jsval) \<Rightarrow> string \<Rightarrow> error + CategoryGroup" where
  "loadPrompts fetch yaml_load language =
     (case loadPromptsFromUnified fetch yaml_load language of
        Inr grouped \<Rightarrow> Inr grouped
      | Inl unifiedError \<Rightarrow> loadPromptsLegacy fetch yaml_load language)"

subsection \<open>Lookup by id\<close>

text \<open>
  \<^verbatim>\<open>for (const category in categoryGroups)\<close> visits the own keys in enumeration order
  (the members of the prototype are not enumerable); \<^verbatim>\<open>p.id === id\<close> holds for a
  string id equal to the argument.
\<close>

fun find_in_groups :: "(string \<times> Prompt list) list \<Rightarrow> string \<Rightarrow> Prompt option" where
  "find_in_groups [] i = None"
| "find_in_groups (g # gs) i =
     (case find (\<lambda>p. id_field p = JStr i) (snd g) of
        Some p \<Rightarrow> Some p
      | None \<Rightarrow> find_in_groups gs i)"

definition findPromptById :: "CategoryGroup \<Rightarrow> string \<Rightarrow> Prompt option" where
  "findPromptById categoryGroups i = find_in_groups (own_entries categoryGroups) i"

subsection \<open>Reading a parsed document\<close>



section \<open>The application state (main.ts)\<close>

text \<open>
  The fields of \<^verbatim>\<open>JournalPromptsApp\<close> that selection and deep linking read or write,
  and the query string of the address as the three parameters the application knows.
  \<^verbatim>\<open>URLSearchParams.get\<close> gives \<^verbatim>\<open>null\<close>, here \<open>None\<close>, for an absent parameter. The
  elements of the page are not part of the state.
\<close>

record Params =
  id_param :: "string option"
  category_param :: "string option"
  prompt_param :: "string option"

record App =
  categoryGroups :: CategoryGroup
  currentCategory :: anyval
  currentPrompt :: "Prompt option"
  isPinned :: bool
  wasOpenedWithDeepLink :: bool
  search :: Params

definition no_params :: Params where
  "no_params = \<lparr>id_param = None, category_param = None, prompt_param = None\<rparr>"

text \<open>\<^verbatim>\<open>params.set('id', prompt.id)\<close> converts the id to a string.\<close>

definition updateUrl :: "Prompt \<Rightarrow> App \<Rightarrow> error + App" where
  "updateUrl p s =
     bindE (js_to_string (id_field p)) (\<lambda>i.
       Inr (s\<lparr>search := \<lparr>id_param = Some i, category_param = None, prompt_param = None\<rparr>\<rparr>))"

definition clearUrl :: "App \<Rightarrow> App" where
  "clearUrl s = s\<lparr>search := no_params\<rparr>"

definition setPinned :: "bool \<Rightarrow> App \<Rightarrow> App" where
  "setPinned pinned s = s\<lparr>isPinned := pinned\<rparr>"

definition displayPrompt :: "Prompt \<Rightarrow> App \<Rightarrow> error + App" where
  "displayPrompt p s =
     (let s1 = s\<lparr>currentPrompt := Some p, currentCategory := category p\<rparr>
      in if wasOpenedWithDeepLink s1 then updateUrl p s1 else Inr s1)"

text \<open>
  \<^verbatim>\<open>displayPrompt(getRandomPrompt(this.categoryGroups[category]))\<close>. Without a list under
  the key, \<^verbatim>\<open>getRandomPrompt\<close> reads \<^verbatim>\<open>length\<close> of \<^verbatim>\<open>undefined\<close> and throws, or finds no
  element in the built-in object that the prototype has under the key; with a list, the
  pick may be \<^verbatim>\<open>undefined\<close>. \<^verbatim>\<open>displayPrompt(undefined)\<close> throws a \<open>TypeError\<close>.
\<close>

definition selectCategory :: "string \<Rightarrow> Double \<Rightarrow> App \<Rightarrow> error + App" where
  "selectCategory c r s =
     (let s1 = s\<lparr>currentCategory := Data (JStr c)\<rparr>
      in case group_get (categoryGroups s1) c of
           Group prompts \<Rightarrow>
             (case getRandomPrompt prompts r of
                None \<Rightarrow> Inl TypeError
              | Some selectedPrompt \<Rightarrow> displayPrompt selectedPrompt s1)
         | Inherited b \<Rightarrow> Inl TypeError
         | Missing \<Rightarrow> Inl TypeError)"

definition loadRandomPromptFromAnyCategory :: "Double \<Rightarrow> App \<Rightarrow> error + App" where
  "loadRandomPromptFromAnyCategory r s =
     (let allPrompts = concat (map snd (own_entries (categoryGroups s)))
      in if length allPrompts > 0
         then
           (case getRandomPrompt allPrompts r of
              None \<Rightarrow> Inl TypeError
            | Some randomPrompt \<Rightarrow>
                displayPrompt randomPrompt (s\<lparr>currentCategory := category randomPrompt\<rparr>))
         else Inr s)"

subsection \<open>A new prompt without an immediate repeat\<close>

text \<open>
  The successive results of \<^verbatim>\<open>Math.random()\<close> are a sequence \<open>rnd\<close>. The \<^verbatim>\<open>while\<close> loop
  of lines 1399 to 1401 has no bound: \<open>resample\<close> is a partial function, with the value
  \<open>None\<close> where the loop does not end. \<open>n\<close> is the index of the next number to draw.
\<close>

partial_function (option) resample ::
  "Prompt list \<Rightarrow> Prompt \<Rightarrow> (nat \<Rightarrow> Double) \<Rightarrow> nat \<Rightarrow> Prompt option \<Rightarrow> (error + Prompt) option" where
  "resample prompts current rnd n newPrompt =
     (case newPrompt of
        None \<Rightarrow> Some (Inl TypeError)
      | Some p \<Rightarrow>
          if prompt p = prompt current
          then resample prompts current rnd (Suc n) (getRandomPrompt prompts (rnd n))
          else Some (Inr p))"

text \<open>Lines 1395 to 1402: the prompt handed to \<^verbatim>\<open>displayPrompt\<close>.\<close>

definition pick_new_prompt ::
  "Prompt list \<Rightarrow> Prompt option \<Rightarrow> (nat \<Rightarrow> Double) \<Rightarrow> (error + Prompt) option" where
  "pick_new_prompt prompts current rnd =
     (let newPrompt = getRandomPrompt prompts (rnd 0)
      in case current of
           Some cur \<Rightarrow>
             if length prompts > 1 then resample prompts cur rnd 1 newPrompt
             else (case newPrompt of None \<Rightarrow> Some (Inl TypeError) | Some p \<Rightarrow> Some (Inr p))
         | None \<Rightarrow> (case newPrompt of None \<Rightarrow> Some (Inl TypeError) | Some p \<Rightarrow> Some (Inr p)))"

text \<open>
  \<^verbatim>\<open>this.categoryGroups[this.currentCategory]\<close> converts the category to a property key.
  Under a key that the object does not have, every path throws a \<open>TypeError\<close>: on
  \<^verbatim>\<open>undefined\<close> in \<^verbatim>\<open>getRandomPrompt\<close>, and for a built-in object, in which no prompt is
  found, in the loop or in \<^verbatim>\<open>displayPrompt\<close>.
\<close>

definition selectNewPrompt :: "(nat \<Rightarrow> Double) \<Rightarrow> App \<Rightarrow> (error + App) option" where
  "selectNewPrompt rnd s =
     (let s1 = clearUrl (s\<lparr>wasOpenedWithDeepLink := False\<rparr>)
      in if isPinned s1 \<and> any_truthy (currentCategory s1)
         then
           (case any_to_string (currentCategory s1) of
              Inl e \<Rightarrow> Some (Inl e)
            | Inr k \<Rightarrow>
                (case group_get (categoryGroups s1) k of
                   Group prompts \<Rightarrow>
                     (case pick_new_prompt prompts (currentPrompt s1) rnd of
                        None \<Rightarrow> None
                      | Some (Inl e) \<Rightarrow> Some (Inl e)
                      | Some (Inr newPrompt) \<Rightarrow> Some (displayPrompt newPrompt s1))
                 | Inherited b \<Rightarrow> Some (Inl TypeError)
                 | Missing \<Rightarrow> Some (Inl TypeError)))
         else Some (loadRandomPromptFromAnyCategory (rnd 0) s1))"

subsection \<open>Deep links\<close>

text \<open>
  \<open>decode\<close> stands for \<^verbatim>\<open>decodeURIComponent\<close>, which throws a \<open>URIError\<close> on a malformed
  escape; \<open>r\<close> is the random number the category-only path draws. The result is the
  returned flag and the new state. A category that names a member of the prototype passes
  the test \<^verbatim>\<open>this.categoryGroups[category]\<close>; the built-in object found there has no
  \<^verbatim>\<open>find\<close>, and \<^verbatim>\<open>selectCategory\<close> throws on it.
\<close>

definition startsWith :: "string \<Rightarrow> string \<Rightarrow> bool" where
  "startsWith s pre = (take (length pre) s = pre)"

definition handleDeepLink :: "(string \<Rightarrow> error + string) \<Rightarrow> Double \<Rightarrow> App \<Rightarrow> error + bool \<times> App" where
  "handleDeepLink decode r s =
     (let promptId = id_param (search s);
          categoryP = category_param (search s);
          promptPrefix = prompt_param (search s);
          byId = (case promptId of
                    None \<Rightarrow> None
                  | Some i \<Rightarrow> if i = [] then None else findPromptById (categoryGroups s) i);
          inCategory = (case categoryP of
                          None \<Rightarrow> None
                        | Some c \<Rightarrow> if c = [] then None
                                    else (case group_get (categoryGroups s) c of
                                            Missing \<Rightarrow> None
                                          | member \<Rightarrow> Some (c, member)));
          categoryOnly = (case inCategory of
                            Some (c, member) \<Rightarrow>
                              bindE (selectCategory c r (s\<lparr>wasOpenedWithDeepLink := True\<rparr>))
                                (\<lambda>s1. Inr (True, setPinned True s1))
                          | None \<Rightarrow>
                              if (promptId \<noteq> None \<and> promptId \<noteq> Some []) \<or> (categoryP \<noteq> None \<and> categoryP \<noteq> Some [])
                              then Inr (False, clearUrl s)
                              else Inr (False, s))
      in case byId of
           Some p \<Rightarrow>
             bindE (displayPrompt p (s\<lparr>wasOpenedWithDeepLink := True, currentCategory := category p\<rparr>))
               (\<lambda>s1. Inr (True, s1))
         | None \<Rightarrow>
             (case (inCategory, promptPrefix) of
                (Some (c, member), Some pre) \<Rightarrow>
                  if pre = [] then categoryOnly
                  else
                    bindE (decode pre) (\<lambda>decodedPrefix.
                      case member of
                        Group prompts \<Rightarrow>
                          (case find (\<lambda>p. startsWith (prompt p) decodedPrefix) prompts of
                             Some matchingPrompt \<Rightarrow>
                               bindE (displayPrompt matchingPrompt
                                        (s\<lparr>wasOpenedWithDeepLink := True, currentCategory := Data (JStr c)\<rparr>))
                                 (\<lambda>s1. Inr (True, s1))
                           | None \<Rightarrow> categoryOnly)
                      | other \<Rightarrow> Inl TypeError)
              | other \<Rightarrow> categoryOnly))"

section \<open>Notions used in the statements\<close>

text \<open>
  What grouping maintains: the keys are pairwise different, none of them is a name that
  the prototype defines, no list is empty, and every prompt sits under the key its
  category converts to.
\<close>

definition group_ok :: "CategoryGroup \<Rightarrow> bool" where
  "group_ok g = (distinct (map fst g)
     \<and> list_all (\<lambda>e. inherited ObjectK (fst e) = Data JUndefined \<and> snd e \<noteq> []
                     \<and> list_all (\<lambda>p. any_to_string (category p) = Inr (fst e)) (snd e)) g)"

text \<open>A prompt that grouping accepts: its category converts to a key the prototype does not define.\<close>

definition groupable :: "Prompt \<Rightarrow> bool" where
  "groupable p =
     (case any_to_string (category p) of
        Inl e \<Rightarrow> False
      | Inr k \<Rightarrow> inherited ObjectK k = Data JUndefined)"



section \<open>Sample data\<close>

text \<open>Two prompts of one category, used to run the selection functions.\<close>

definition sample_b1 :: Prompt where
  "sample_b1 = \<lparr>id_field = JStr ''B1'', category = Data (JStr ''Biography''),
                 prompt = ''Describe a moment'', purpose = ''Reflect''\<rparr>"

definition sample_b2 :: Prompt where
  "sample_b2 = \<lparr>id_field = JStr ''B2'', category = Data (JStr ''Biography''),
                 prompt = ''Write a letter'', purpose = ''Remember''\<rparr>"

text \<open>
  The example of the README as a parsed Clean document: prompt 1 has both languages,
  prompt 2 only English, prompt 3 only French.
\<close>

definition tr :: "string \<Rightarrow> string \<Rightarrow> jsval" where
  "tr p q = JObj [(''prompt'', JStr p), (''purpose'', JStr q)]"

definition sample_cp1 :: jsval where
  "sample_cp1 = JObj [(''id'', JNum 1), (''en'', tr ''Describe a moment'' ''Reflect''),
                      (''de'', tr ''Beschreibe einen Moment'' ''Reflektiere'')]"

definition sample_cp2 :: jsval where
  "sample_cp2 = JObj [(''id'', JNum 2), (''en'', tr ''Write a letter'' ''Remember'')]"

definition sample_cp3 :: jsval where
  "sample_cp3 = JObj [(''id'', JNum 3), (''fr'', tr ''Raconte'' ''Souviens'')]"

definition sample_clean_doc :: jsval where
  "sample_clean_doc =
     JObj [(''categories'', JObj [(''B'', JObj
       [(''en'', JStr ''Biography''), (''de'', JStr ''Biografie''),
        (''prompts'', JArr [sample_cp1, sample_cp2, sample_cp3])])])]"

text \<open>
  The same content as a Nested document, with one more prompt whose category id is not in
  the category table.
\<close>

definition sample_category :: jsval where
  "sample_category =
     JObj [(''id'', JStr ''B''),
           (''translations'', JObj [(''en'', JStr ''Biography''), (''de'', JStr ''Biografie'')])]"

definition sample_mp1 :: jsval where
  "sample_mp1 =
     JObj [(''id'', JNum 1), (''category_id'', JStr ''B''),
           (''translations'', JObj [(''en'', tr ''Describe a moment'' ''Reflect''),
                                   (''de'', tr ''Beschreibe einen Moment'' ''Reflektiere'')])]"

definition sample_mp2 :: jsval where
  "sample_mp2 =
     JObj [(''id'', JNum 2), (''category_id'', JStr ''B''),
           (''translations'', JObj [(''en'', tr ''Write a letter'' ''Remember'')])]"

definition sample_mp3 :: jsval where
  "sample_mp3 =
     JObj [(''id'', JNum 3), (''category_id'', JStr ''B''),
           (''translations'', JObj [(''fr'', tr ''Raconte'' ''Souviens'')])]"

definition sample_orphan :: jsval where
  "sample_orphan =
     JObj [(''id'', JNum 1), (''category_id'', JStr ''X''),
           (''translations'', JObj [(''en'', tr ''Orphan'' ''None'')])]"


definition sample_nested_doc :: jsval where
  "sample_nested_doc =
     JObj [(''categories'', JArr [sample_category]),
           (''prompts'', JArr [sample_mp1, sample_mp2, sample_mp3, sample_orphan])]"

text \<open>Two Legacy documents.\<close>

definition sample_legacy_b1 :: jsval where
  "sample_legacy_b1 =
     JObj [(''id'', JStr ''B1''), (''category'', JStr ''Biography''),
           (''prompt'', JStr ''Describe a moment''), (''purpose'', JStr ''Reflect'')]"

definition sample_legacy_b2 :: jsval where
  "sample_legacy_b2 =
     JObj [(''id'', JStr ''B2''), (''category'', JStr ''Biography''),
           (''prompt'', JStr ''Write a letter''), (''purpose'', JStr ''Remember'')]"

text \<open>
  A Legacy document that holds the category identifier \<^verbatim>\<open>B\<close> and the sequence number 1
  in its two fields, and a Clean document in which category \<^verbatim>\<open>B\<close> holds prompt 11 and
  category \<^verbatim>\<open>B1\<close> holds prompt 1.
\<close>

definition sample_legacy_numeric :: jsval where
  "sample_legacy_numeric =
     JObj [(''id'', JNum 1), (''category'', JStr ''B''),
           (''prompt'', JStr ''Describe a moment''), (''purpose'', JStr ''Reflect'')]"

definition sample_collision_doc :: jsval where
  "sample_collision_doc =
     JObj [(''categories'', JObj
       [(''B'', JObj [(''prompts'', JArr [JObj [(''id'', JNum 11), (''en'', tr ''One'' ''First'')]])]),
        (''B1'', JObj [(''prompts'', JArr [JObj [(''id'', JNum 1), (''en'', tr ''Two'' ''Second'')]])])])]"

text \<open>A Legacy document whose category is the name of a member of \<^verbatim>\<open>Object.prototype\<close>.\<close>

definition sample_legacy_constructor :: jsval where
  "sample_legacy_constructor =
     JObj [(''id'', JStr ''C1''), (''category'', JStr ''constructor''),
           (''prompt'', JStr ''Build something''), (''purpose'', JStr ''Create'')]"

text \<open>
  A parser that knows seven texts by name and rejects every other text, and a server that
  has the unified file with a given body and the legacy file \<^verbatim>\<open>prompts_EN.yaml\<close>, and
  answers 404 for every other address.
\<close>

definition sample_load :: "string \<Rightarrow> error + jsval" where
  "sample_load t =
     (if t = ''clean'' then Inr sample_clean_doc
      else if t = ''nested'' then Inr sample_nested_doc
      else if t = ''collision'' then Inr sample_collision_doc
      else if t = ''b1'' then Inr sample_legacy_b1
      else if t = ''b2'' then Inr sample_legacy_b2
      else if t = ''n1'' then Inr sample_legacy_numeric
      else if t = ''k1'' then Inr sample_legacy_constructor
      else Inl YAMLException)"

definition sample_fetch :: "string \<Rightarrow> string \<Rightarrow> error + Response" where
  "sample_fetch unified url =
     (if url = ''./journal-prompts.yaml'' then Inr \<lparr>ok = True, statusText = ''OK'', body = unified\<rparr>
      else if url = ''./prompts_EN.yaml'' then Inr \<lparr>ok = True, statusText = ''OK'', body = ''b1 --- b2''\<rparr>
      else Inr \<lparr>ok = False, statusText = ''Not Found'', body = []\<rparr>)"

text \<open>
  The prompt of that document, and a server whose legacy file holds the document.
\<close>

definition sample_constructor_prompt :: Prompt where
  "sample_constructor_prompt =
     \<lparr>id_field = JStr ''C1'', category = Data (JStr ''constructor''),
      prompt = ''Build something'', purpose = ''Create''\<rparr>"

definition constructor_fetch :: "string \<Rightarrow> error + Response" where
  "constructor_fetch url = Inr \<lparr>ok = True, statusText = ''OK'', body = ''k1''\<rparr>"

definition offline_fetch :: "string \<Rightarrow> error + Response" where
  "offline_fetch url = Inl FetchRejected"

text \<open>A server that answers every address with the same two legacy documents.\<close>

definition single_file_fetch :: "string \<Rightarrow> error + Response" where
  "single_file_fetch url = Inr \<lparr>ok = True, statusText = ''OK'', body = ''b1 --- b2''\<rparr>"

text \<open>The two prompts in German, the second one with its English text.\<close>

definition sample_b1_de :: Prompt where
  "sample_b1_de = \<lparr>id_field = JStr ''B1'', category = Data (JStr ''Biografie''),
                    prompt = ''Beschreibe einen Moment'', purpose = ''Reflektiere''\<rparr>"

definition sample_b2_de :: Prompt where
  "sample_b2_de = \<lparr>id_field = JStr ''B2'', category = Data (JStr ''Biografie''),
                    prompt = ''Write a letter'', purpose = ''Remember''\<rparr>"

text \<open>
  A third prompt with the text of the first, the doubles 0 and 1/2 and sequences of them
  as random numbers, a decoder for
  texts without escapes, and four application states: one opened through a link with all
  three parameters, one that shows the first prompt unpinned, one whose only prompt has the
  empty string as id and is linked to by that id, and one pinned on a category whose two
  prompts have the same text.
\<close>

definition sample_twin :: Prompt where
  "sample_twin = \<lparr>id_field = JStr ''B3'', category = Data (JStr ''Biography''),
                   prompt = ''Describe a moment'', purpose = ''Again''\<rparr>"

definition zero_double :: Double where
  "zero_double = \<lparr>significand = 0, scale = 0\<rparr>"

definition half_double :: Double where
  "half_double = \<lparr>significand = 1, scale = 1\<rparr>"

definition zero_draws :: "nat \<Rightarrow> Double" where
  "zero_draws k = zero_double"

definition sample_draws :: "nat \<Rightarrow> Double" where
  "sample_draws k = (if k < 2 then zero_double else half_double)"

definition sample_decode :: "string \<Rightarrow> error + string" where
  "sample_decode t = Inr t"

definition sample_app :: App where
  "sample_app =
     \<lparr>categoryGroups = [(''Biography'', [sample_b1, sample_b2])],
      currentCategory = Data (JStr []), currentPrompt = None, isPinned = False,
      wasOpenedWithDeepLink = False,
      search = \<lparr>id_param = Some ''B1'', category_param = Some ''Biography'',
                prompt_param = Some ''Write''\<rparr>\<rparr>"

definition shown_app :: App where
  "shown_app =
     \<lparr>categoryGroups = [(''Biography'', [sample_b1, sample_b2])],
      currentCategory = Data (JStr ''Biography''), currentPrompt = Some sample_b1, isPinned = False,
      wasOpenedWithDeepLink = False, search = no_params\<rparr>"

definition sample_blank :: Prompt where
  "sample_blank = \<lparr>id_field = JStr [], category = Data (JStr ''Biography''),
                    prompt = ''Describe a moment'', purpose = ''Reflect''\<rparr>"

definition blank_app :: App where
  "blank_app =
     \<lparr>categoryGroups = [(''Biography'', [sample_blank])],
      currentCategory = Data (JStr []), currentPrompt = None, isPinned = False,
      wasOpenedWithDeepLink = False,
      search = \<lparr>id_param = Some [], category_param = None, prompt_param = None\<rparr>\<rparr>"

definition twin_app :: App where
  "twin_app =
     \<lparr>categoryGroups = [(''Biography'', [sample_b1, sample_twin])],
      currentCategory = Data (JStr ''Biography''), currentPrompt = Some sample_b1, isPinned = True,
      wasOpenedWithDeepLink = False, search = no_params\<rparr>"

text \<open>
  A server whose legacy file holds a second document that the parser rejects, and an
  application pinned on the category of the two sample prompts, showing the first.
\<close>

definition broken_fetch :: "string \<Rightarrow> error + Response" where
  "broken_fetch url = Inr \<lparr>ok = True, statusText = ''OK'', body = ''b1 --- zz''\<rparr>"

definition pinned_app :: App where
  "pinned_app =
     \<lparr>categoryGroups = [(''Biography'', [sample_b1, sample_b2])],
      currentCategory = Data (JStr ''Biography''), currentPrompt = Some sample_b1, isPinned = True,
      wasOpenedWithDeepLink = False, search = no_params\<rparr>"

text \<open>
  A double whose exact product with 7 is \<open>(2\<^sup>5\<^sup>4 - 1) / 2\<^sup>5\<^sup>2\<close>, just below 4, and is rounded
  to 4 by the multiplication; and a list of seven prompts.
\<close>

definition rounding_double :: Double where
  "rounding_double = \<lparr>significand = 2573485501354569, scale = 52\<rparr>"

definition seven_prompts :: "Prompt list" where
  "seven_prompts = [sample_b1, sample_b2, sample_twin, sample_b1, sample_b2, sample_twin, sample_b1]"

section \<open>Basic facts\<close>

subsection \<open>Results and loops\<close>

lemma bindE_Inl [simp]: "bindE (Inl e) f = Inl e"
  by (simp add: bindE_def)

lemma bindE_Inr [simp]: "bindE (Inr v) f = f v"
  by (simp add: bindE_def)


lemma collect_failure:
  "x \<in> set xs \<Longrightarrow> f x = Inl e \<Longrightarrow> isl (collect f xs)"
proof (induction xs)
  case Nil
  then show ?case by simp
next
  case (Cons a xs)
  show ?case
  proof (cases "f a")
    case (Inl e')
    then show ?thesis by simp
  next
    case (Inr ys)
    with Cons have "isl (collect f xs)" by auto
    then obtain e' where "collect f xs = Inl e'" by (cases "collect f xs") auto
    with Inr show ?thesis by simp
  qed
qed


subsection \<open>Rounding and the random index\<close>

lemma bit_length_lower: "0 < n \<Longrightarrow> 2 ^ (bit_length n - 1) \<le> n"
proof (induction n rule: bit_length.induct)
  case (1 n)
  from 1(2) have n0: "n \<noteq> 0" by simp
  show ?case
  proof (cases "n div 2 = 0")
    case True
    with n0 have "n = 1" by linarith
    then show ?thesis by (simp add: bit_length.simps)
  next
    case False
    then have "0 < n div 2" by simp
    from 1(1) [OF n0 this] have h: "2 ^ (bit_length (n div 2) - 1) \<le> n div 2" .
    from False have "bit_length (n div 2) \<noteq> 0" by (simp add: bit_length.simps [of "n div 2"])
    then obtain b where b: "bit_length (n div 2) = Suc b" by (cases "bit_length (n div 2)") auto
    with h have "2 ^ b \<le> n div 2" by simp
    then have "2 * 2 ^ b \<le> n" by linarith
    with n0 b show ?thesis by (simp add: bit_length.simps [of n])
  qed
qed

text \<open>Rounding to nearest moves a number by at most its \<open>2\<^sup>5\<^sup>3\<close>-th part.\<close>

lemma round53_error: "round53 m * 2 ^ precision \<le> m * 2 ^ precision + m"
proof (cases "bit_length m \<le> precision")
  case True
  then show ?thesis by (simp add: round53_def)
next
  case False
  define P where "P = (2::nat) ^ precision"
  define s where "s = bit_length m - precision"
  define q where "q = m div 2 ^ s"
  define rest where "rest = m mod 2 ^ s"
  from False obtain t where t: "s = Suc t" by (cases s) (auto simp: s_def)
  from False t have bl: "bit_length m - 1 = t + precision" unfolding s_def by linarith
  from False have "0 < m" by (cases "m = 0") (simp_all add: bit_length.simps)
  from bit_length_lower [OF this] bl have big: "2 ^ t * P \<le> m" by (simp add: P_def power_add)
  have m: "m = q * 2 ^ s + rest" unfolding q_def rest_def by (rule div_mult_mod_eq [symmetric])
  from False have "round53 m =
      (if 2 ^ (s - 1) < rest \<or> (rest = 2 ^ (s - 1) \<and> odd q) then q + 1 else q) * 2 ^ s"
    unfolding round53_def Let_def s_def q_def rest_def by simp
  moreover from t have "s - 1 = t" by simp
  ultimately have rd: "round53 m = (if 2 ^ t < rest \<or> (rest = 2 ^ t \<and> odd q) then q + 1 else q) * 2 ^ s"
    by simp
  have r: "round53 m \<le> m + 2 ^ t"
  proof (cases "2 ^ t < rest \<or> (rest = 2 ^ t \<and> odd q)")
    case True
    then have h: "2 ^ t \<le> rest" by auto
    have "(q + 1) * 2 ^ s = q * 2 ^ s + 2 ^ t + 2 ^ t" by (simp add: t algebra_simps)
    also have "\<dots> \<le> q * 2 ^ s + rest + 2 ^ t" using h by simp
    finally have "(q + 1) * 2 ^ s \<le> m + 2 ^ t" using m by simp
    moreover from True rd have "round53 m = (q + 1) * 2 ^ s" by presburger
    ultimately show ?thesis by simp
  next
    case no: False
    have "q * 2 ^ s \<le> m" using m by simp
    moreover from no rd have "round53 m = q * 2 ^ s" by presburger
    ultimately show ?thesis by simp
  qed
  then have "round53 m * P \<le> (m + 2 ^ t) * P" by (rule mult_le_mono1)
  also have "\<dots> = m * P + 2 ^ t * P" by (simp add: algebra_simps)
  also have "\<dots> \<le> m * P + m" using big by simp
  finally show ?thesis by (simp add: P_def)
qed

text \<open>A double below 1 is at most \<open>1 - 2\<^sup>-\<^sup>5\<^sup>3\<close>.\<close>

lemma unit_double_bound:
  assumes "unit_double r"
  shows "significand r * 2 ^ precision + 2 ^ scale r \<le> 2 ^ precision * 2 ^ scale r"
proof -
  define P where "P = (2::nat) ^ precision"
  define E where "E = (2::nat) ^ scale r"
  define m where "m = significand r"
  from assms have mP: "m < P" and mE: "m < E"
    by (simp_all add: unit_double_def m_def P_def E_def)
  have "m * P + E \<le> P * E"
  proof (cases "scale r \<le> precision")
    case True
    then have "E \<le> P" by (simp add: E_def P_def power_increasing)
    from mE have "m + 1 \<le> E" by simp
    then have "(m + 1) * P \<le> E * P" by (rule mult_le_mono1)
    then have "m * P + P \<le> P * E" by (simp add: algebra_simps)
    with \<open>E \<le> P\<close> show ?thesis by linarith
  next
    case False
    then have "Suc precision \<le> scale r" by simp
    then have "(2::nat) ^ Suc precision \<le> 2 ^ scale r" by (rule power_increasing) simp
    then have E2: "2 * P \<le> E" by (simp add: E_def P_def)
    from mP have "m + 1 \<le> P" by simp
    then have "(m + 1) * P \<le> P * P" by (rule mult_le_mono1)
    then have a: "m * P + P \<le> P * P" by (simp add: algebra_simps)
    from E2 obtain d where d: "E = 2 * P + d" by (metis le_Suc_ex)
    have "0 < P" by (simp add: P_def)
    then have "1 \<le> P" by simp
    then have "1 * E \<le> P * E" by (rule mult_le_mono1)
    then have b: "E \<le> P * E" by simp
    have "P * E = P * P + (P * P + P * d)" by (simp add: d algebra_simps)
    moreover have "E \<le> P * P + P * d"
    proof -
      have "2 \<le> P" by (simp add: P_def precision_def)
      then have x: "2 * P \<le> P * P" by (rule mult_le_mono1)
      from \<open>1 \<le> P\<close> have "1 * d \<le> P * d" by (rule mult_le_mono1)
      then have y: "d \<le> P * d" by simp
      from x y show ?thesis unfolding d by linarith
    qed
    ultimately show ?thesis using a by linarith
  qed
  then show ?thesis by (simp add: P_def E_def m_def)
qed

lemma random_index_less:
  assumes u: "unit_double r" and n: "0 < n"
  shows "random_index r n < n"
proof -
  define P where "P = (2::nat) ^ precision"
  define E where "E = (2::nat) ^ scale r"
  define m where "m = significand r"
  define R where "R = round53 (m * n)"
  have P: "0 < P" and E: "0 < E" by (simp_all add: P_def E_def)
  from unit_double_bound [OF u] have frac: "m * P + E \<le> P * E" by (simp add: P_def E_def m_def)
  from round53_error [of "m * n"] have err: "R * P \<le> m * n * P + m * n" by (simp add: R_def P_def)
  define A where "A = (m * P) * (n * P + n)"
  define B where "B = E * n * P"
  define C where "C = E * n"
  define D where "D = E * n * P * P"
  have "R * P * P \<le> (m * n * P + m * n) * P" using err by (rule mult_le_mono1)
  also have "\<dots> = A" by (simp add: A_def algebra_simps)
  finally have 1: "R * P * P \<le> A" .
  from frac have "(m * P + E) * (n * P + n) \<le> (P * E) * (n * P + n)" by (rule mult_le_mono1)
  moreover have "(m * P + E) * (n * P + n) = A + (B + C)"
    by (simp add: A_def B_def C_def algebra_simps)
  moreover have "(P * E) * (n * P + n) = D + B"
    by (simp add: D_def B_def algebra_simps)
  ultimately have 2: "A + (B + C) \<le> D + B" by simp
  have "0 < C" using E n by (simp add: C_def)
  with 1 2 have "R * P * P < D" by linarith
  then have "R * (P * P) < (E * n) * (P * P)" by (simp add: D_def algebra_simps)
  then have "R < E * n" by simp
  then have "R div E < n" by (simp add: less_mult_imp_div_less mult.commute)
  then show ?thesis by (simp add: random_index_def R_def m_def E_def)
qed

subsection \<open>Random selection and the retry loop\<close>

lemma getRandomPrompt_mem: "getRandomPrompt prompts r = Some p \<Longrightarrow> p \<in> set prompts"
  by (auto simp: getRandomPrompt_def Let_def split: if_splits)

lemma getRandomPrompt_index:
  assumes "prompts \<noteq> []" "unit_double r"
  shows "getRandomPrompt prompts r = Some (prompts ! random_index r (length prompts))"
proof -
  from assms have "random_index r (length prompts) < length prompts"
    by (simp add: random_index_less)
  then show ?thesis by (simp add: getRandomPrompt_def)
qed

lemma getRandomPrompt_singleton: "unit_double r \<Longrightarrow> getRandomPrompt [q] r = Some q"
  using getRandomPrompt_index [of "[q]" r] random_index_less [of r 1] by simp

lemma getRandomPrompt_Some:
  assumes "prompts \<noteq> []" "unit_double r"
  shows "\<exists>p \<in> set prompts. getRandomPrompt prompts r = Some p"
  using getRandomPrompt_index [OF assms] getRandomPrompt_mem by fastforce

lemma resample_sound:
  assumes "resample prompts cur rnd n np = Some res"
  shows "case res of
           Inl e \<Rightarrow> np = None \<or> (\<exists>k\<ge>n. getRandomPrompt prompts (rnd k) = None)
         | Inr p \<Rightarrow> prompt p \<noteq> prompt cur
                    \<and> (np = Some p \<or> (\<exists>k\<ge>n. getRandomPrompt prompts (rnd k) = Some p))"
proof (rule resample.raw_induct [where P = "\<lambda>prompts cur rnd n np res. case res of
           Inl e \<Rightarrow> np = None \<or> (\<exists>k\<ge>n. getRandomPrompt prompts (rnd k) = None)
         | Inr p \<Rightarrow> prompt p \<noteq> prompt cur
                    \<and> (np = Some p \<or> (\<exists>k\<ge>n. getRandomPrompt prompts (rnd k) = Some p))", OF _ assms])
  fix f :: "Prompt list \<Rightarrow> Prompt \<Rightarrow> (nat \<Rightarrow> Double) \<Rightarrow> nat \<Rightarrow> Prompt option \<Rightarrow> (error + Prompt) option"
  fix prompts cur rnd n np res
  assume ih: "\<And>prompts cur rnd n np res. f prompts cur rnd n np = Some res \<Longrightarrow>
      (case res of
           Inl e \<Rightarrow> np = None \<or> (\<exists>k\<ge>n. getRandomPrompt prompts (rnd k) = None)
         | Inr p \<Rightarrow> prompt p \<noteq> prompt cur
                    \<and> (np = Some p \<or> (\<exists>k\<ge>n. getRandomPrompt prompts (rnd k) = Some p)))"
  assume eq: "(case np of
        None \<Rightarrow> Some (Inl TypeError)
      | Some p \<Rightarrow>
          if prompt p = prompt cur
          then f prompts cur rnd (Suc n) (getRandomPrompt prompts (rnd n))
          else Some (Inr p)) = Some res"
  show "case res of
           Inl e \<Rightarrow> np = None \<or> (\<exists>k\<ge>n. getRandomPrompt prompts (rnd k) = None)
         | Inr p \<Rightarrow> prompt p \<noteq> prompt cur
                    \<and> (np = Some p \<or> (\<exists>k\<ge>n. getRandomPrompt prompts (rnd k) = Some p))"
  proof (cases np)
    case None
    with eq show ?thesis by auto
  next
    case (Some q)
    show ?thesis
    proof (cases "prompt q = prompt cur")
      case False
      with eq Some show ?thesis by auto
    next
      case True
      with eq Some have "f prompts cur rnd (Suc n) (getRandomPrompt prompts (rnd n)) = Some res"
        by simp
      from ih [OF this] have ih': "case res of
           Inl e \<Rightarrow> getRandomPrompt prompts (rnd n) = None
                    \<or> (\<exists>k\<ge>Suc n. getRandomPrompt prompts (rnd k) = None)
         | Inr p \<Rightarrow> prompt p \<noteq> prompt cur
                    \<and> (getRandomPrompt prompts (rnd n) = Some p
                       \<or> (\<exists>k\<ge>Suc n. getRandomPrompt prompts (rnd k) = Some p))" .
      show ?thesis
      proof (cases res)
        case (Inl e)
        with ih' have "getRandomPrompt prompts (rnd n) = None
            \<or> (\<exists>k\<ge>Suc n. getRandomPrompt prompts (rnd k) = None)" by simp
        then have "\<exists>k\<ge>n. getRandomPrompt prompts (rnd k) = None"
          using Suc_leD by blast
        with Inl show ?thesis by simp
      next
        case (Inr p)
        with ih' have d: "prompt p \<noteq> prompt cur"
          and "getRandomPrompt prompts (rnd n) = Some p
            \<or> (\<exists>k\<ge>Suc n. getRandomPrompt prompts (rnd k) = Some p)" by simp_all
        then have "\<exists>k\<ge>n. getRandomPrompt prompts (rnd k) = Some p"
          using Suc_leD by blast
        with Inr d show ?thesis by simp
      qed
    qed
  qed
qed

lemma resample_finds:
  assumes "\<forall>k<d. \<exists>q. getRandomPrompt prompts (rnd (n + k)) = Some q \<and> prompt q = prompt cur"
    and "getRandomPrompt prompts (rnd (n + d)) = Some p" and "prompt p \<noteq> prompt cur"
    and "prompt q0 = prompt cur"
  shows "resample prompts cur rnd n (Some q0) = Some (Inr p)"
  using assms
proof (induction d arbitrary: n q0)
  case 0
  then show ?case by (simp add: resample.simps)
next
  case (Suc d)
  from Suc.prems(1) obtain q where q: "getRandomPrompt prompts (rnd n) = Some q" "prompt q = prompt cur"
    by force
  have "\<forall>k<d. \<exists>q. getRandomPrompt prompts (rnd (Suc n + k)) = Some q \<and> prompt q = prompt cur"
    using Suc.prems(1) by (metis Suc_less_eq add_Suc_shift)
  moreover have "getRandomPrompt prompts (rnd (Suc n + d)) = Some p"
    using Suc.prems(2) by simp
  ultimately have "resample prompts cur rnd (Suc n) (Some q) = Some (Inr p)"
    using Suc.IH [of "Suc n" q] Suc.prems(3) q(2) by blast
  with q Suc.prems(4) show ?case
    by (subst resample.simps) simp
qed

lemma resample_diverges:
  assumes "\<forall>k. \<exists>q. getRandomPrompt prompts (rnd k) = Some q \<and> prompt q = prompt cur"
    and "prompt q0 = prompt cur"
  shows "resample prompts cur rnd n (Some q0) = None"
proof (cases "resample prompts cur rnd n (Some q0)")
  case None
  then show ?thesis .
next
  case (Some res)
  show ?thesis
  proof (cases res)
    case (Inl e)
    with resample_sound [OF Some] obtain k where "getRandomPrompt prompts (rnd k) = None" by auto
    moreover from assms(1) obtain q where "getRandomPrompt prompts (rnd k) = Some q" by blast
    ultimately show ?thesis by simp
  next
    case (Inr p)
    with resample_sound [OF Some] have d: "prompt p \<noteq> prompt cur"
      and c: "Some q0 = Some p \<or> (\<exists>k\<ge>n. getRandomPrompt prompts (rnd k) = Some p)" by simp_all
    from c show ?thesis
    proof
      assume "Some q0 = Some p"
      with d assms(2) show ?thesis by simp
    next
      assume "\<exists>k\<ge>n. getRandomPrompt prompts (rnd k) = Some p"
      then obtain k where k: "getRandomPrompt prompts (rnd k) = Some p" by blast
      from assms(1) obtain q where "getRandomPrompt prompts (rnd k) = Some q" "prompt q = prompt cur"
        by blast
      with k d show ?thesis by simp
    qed
  qed
qed

lemma displayPrompt_fields:
  assumes "displayPrompt p s = Inr s'"
  shows "currentPrompt s' = Some p" "currentCategory s' = category p" "isPinned s' = isPinned s"
    "categoryGroups s' = categoryGroups s" "wasOpenedWithDeepLink s' = wasOpenedWithDeepLink s"
  using assms
  by (auto simp: displayPrompt_def updateUrl_def Let_def bindE_def split: if_splits sum.splits)

lemma displayPrompt_plain:
  "\<not> wasOpenedWithDeepLink s \<Longrightarrow>
     displayPrompt p s = Inr (s\<lparr>currentPrompt := Some p, currentCategory := category p\<rparr>)"
  by (simp add: displayPrompt_def Let_def)

lemma displayPrompt_linked:
  "wasOpenedWithDeepLink s \<Longrightarrow> id_field p = JStr i \<Longrightarrow>
     displayPrompt p s =
       Inr (s\<lparr>currentPrompt := Some p, currentCategory := category p,
              search := \<lparr>id_param = Some i, category_param = None, prompt_param = None\<rparr>\<rparr>)"
  by (simp add: displayPrompt_def updateUrl_def Let_def)

subsection \<open>Lookup by id\<close>

lemma find_in_groups_id: "find_in_groups gs i = Some p \<Longrightarrow> id_field p = JStr i"
proof (induction gs)
  case Nil
  then show ?case by simp
next
  case (Cons g gs)
  show ?case
  proof (cases "find (\<lambda>p. id_field p = JStr i) (snd g)")
    case None
    with Cons show ?thesis by simp
  next
    case (Some q)
    with Cons.prems have "q = p" by simp
    with Some show ?thesis by (auto simp: find_Some_iff)
  qed
qed

lemma findPromptById_id: "findPromptById g i = Some p \<Longrightarrow> id_field p = JStr i"
  unfolding findPromptById_def by (rule find_in_groups_id)




subsection \<open>Lower case\<close>

lemma lower_char_idem: "lower_char (lower_char c) = lower_char c"
  by (auto simp: lower_char_def Let_def)

lemma toLowerCase_idem: "toLowerCase (toLowerCase s) = toLowerCase s"
  by (simp add: toLowerCase_def lower_char_idem)

subsection \<open>String conversion\<close>

lemma js_to_string_error:
  "js_to_string v = Inl e \<Longrightarrow> e = TypeError"
  "join_elements vs = Inl e \<Longrightarrow> e = TypeError"
  by (induction v and vs rule: js_to_string_join_elements.induct)
     (auto split: sum.splits if_splits)

lemma any_to_string_error: "any_to_string c = Inl e \<Longrightarrow> e = TypeError"
  by (cases c) (auto dest: js_to_string_error(1))



subsection \<open>Grouping\<close>

lemma inherited_Data: "inherited K k = Data v \<Longrightarrow> v = JUndefined"
  by (simp add: inherited_def split: if_splits)

lemma update_entries:
  "e \<in> set (AList.update k v g) \<Longrightarrow> e \<in> set g \<or> e = (k, v)"
  by (induction g) (auto split: if_splits)

lemma update_all_prompts:
  "map_of g k = Some ps \<Longrightarrow>
   mset (all_prompts (AList.update k (ps @ [p]) g)) = add_mset p (mset (all_prompts g))"
  by (induction g) (auto simp: all_prompts_def)

lemma push_group_cases:
  assumes "push_group g p = Inr g'"
  obtains k ps where "any_to_string (category p) = Inr k" "map_of g k = Some ps"
      "g' = AList.update k (ps @ [p]) g"
  | k where "any_to_string (category p) = Inr k" "map_of g k = None"
      "inherited ObjectK k = Data JUndefined" "g' = g @ [(k, [p])]"
  using assms
  by (auto simp: push_group_def group_get_def bindE_def
      split: sum.splits option.splits anyval.splits dest: inherited_Data)

lemma push_group_ok:
  assumes ok: "group_ok g" and push: "push_group g p = Inr g'"
  shows "group_ok g'"
  using push
proof (cases rule: push_group_cases)
  case (2 k)
  from 2(2) have "k \<notin> fst ` set g" by (simp add: map_of_eq_None_iff)
  with ok 2 show ?thesis by (simp add: group_ok_def)
next
  case (1 k ps)
  from 1(2) have mem: "(k, ps) \<in> set g" by (rule map_of_SomeD)
  from ok have d: "distinct (map fst (AList.update k (ps @ [p]) g))"
    by (simp add: group_ok_def distinct_update)
  from ok mem have old: "inherited ObjectK k = Data JUndefined \<and> ps \<noteq> []
      \<and> list_all (\<lambda>q. any_to_string (category q) = Inr k) ps"
    by (auto simp: group_ok_def list_all_iff)
  have "list_all (\<lambda>e. inherited ObjectK (fst e) = Data JUndefined \<and> snd e \<noteq> []
      \<and> list_all (\<lambda>q. any_to_string (category q) = Inr (fst e)) (snd e))
      (AList.update k (ps @ [p]) g)"
    unfolding list_all_iff
  proof
    fix e assume "e \<in> set (AList.update k (ps @ [p]) g)"
    then have "e \<in> set g \<or> e = (k, ps @ [p])" by (rule update_entries)
    then show "inherited ObjectK (fst e) = Data JUndefined \<and> snd e \<noteq> []
        \<and> (\<forall>q\<in>set (snd e). any_to_string (category q) = Inr (fst e))"
    proof
      assume "e \<in> set g"
      with ok show ?thesis by (auto simp: group_ok_def list_all_iff)
    next
      assume "e = (k, ps @ [p])"
      with old 1(1) show ?thesis by (auto simp: list_all_iff)
    qed
  qed
  with d 1(3) show ?thesis by (simp add: group_ok_def)
qed

lemma push_group_all_prompts:
  assumes "push_group g p = Inr g'"
  shows "mset (all_prompts g') = add_mset p (mset (all_prompts g))"
  using assms
proof (cases rule: push_group_cases)
  case (1 k ps)
  then show ?thesis by (simp add: update_all_prompts)
next
  case (2 k)
  then show ?thesis by (simp add: all_prompts_def)
qed

lemma push_group_groupable:
  "(\<exists>g'. push_group g p = Inr g') \<longleftrightarrow> groupable p \<or> (\<exists>k. any_to_string (category p) = Inr k \<and> map_of g k \<noteq> None)"
  by (auto simp: push_group_def group_get_def groupable_def bindE_def
      split: sum.splits option.splits anyval.splits dest: inherited_Data)

lemma push_group_error: "push_group g p = Inl e \<Longrightarrow> e = TypeError"
  by (auto simp: push_group_def group_get_def bindE_def
      split: sum.splits option.splits anyval.splits dest: any_to_string_error)

lemma group_into_ok: "group_ok g \<Longrightarrow> group_into g prompts = Inr g' \<Longrightarrow> group_ok g'"
proof (induction prompts arbitrary: g)
  case Nil
  then show ?case by simp
next
  case (Cons p ps)
  from Cons.prems(2) obtain g1 where 1: "push_group g p = Inr g1" and 2: "group_into g1 ps = Inr g'"
    by (auto simp: bindE_def split: sum.splits)
  from push_group_ok [OF Cons.prems(1) 1] have "group_ok g1" .
  from Cons.IH [OF this 2] show ?case .
qed

lemma group_into_all_prompts:
  "group_into g prompts = Inr g' \<Longrightarrow> mset (all_prompts g') = mset (all_prompts g) + mset prompts"
proof (induction prompts arbitrary: g)
  case Nil
  then show ?case by simp
next
  case (Cons p ps)
  from Cons.prems obtain g1 where 1: "push_group g p = Inr g1" and 2: "group_into g1 ps = Inr g'"
    by (auto simp: bindE_def split: sum.splits)
  from Cons.IH [OF 2] push_group_all_prompts [OF 1] show ?case by simp
qed

lemma group_into_error: "group_into g prompts = Inl e \<Longrightarrow> e = TypeError"
proof (induction prompts arbitrary: g)
  case Nil
  then show ?case by simp
next
  case (Cons p ps)
  then show ?case
    by (cases "push_group g p") (auto dest: push_group_error)
qed

text \<open>Grouping goes through exactly when every prompt is accepted.\<close>

lemma group_into_succeeds:
  assumes "group_ok g"
  shows "(\<exists>g'. group_into g prompts = Inr g') \<longleftrightarrow> list_all groupable prompts"
  using assms
proof (induction prompts arbitrary: g)
  case Nil
  then show ?case by simp
next
  case (Cons p ps)
  have key: "(\<exists>g1. push_group g p = Inr g1) \<longleftrightarrow> groupable p"
  proof -
    have "groupable p" if "any_to_string (category p) = Inr k" "map_of g k \<noteq> None" for k
    proof -
      from that(2) obtain qs where "(k, qs) \<in> set g" by (auto dest: map_of_SomeD)
      with Cons.prems have "inherited ObjectK k = Data JUndefined"
        by (auto simp: group_ok_def list_all_iff)
      with that(1) show ?thesis by (simp add: groupable_def)
    qed
    then show ?thesis by (auto simp: push_group_groupable)
  qed
  show ?case
  proof (cases "push_group g p")
    case (Inl e)
    with key show ?thesis by simp
  next
    case (Inr g1)
    from push_group_ok [OF Cons.prems Inr] have "group_ok g1" .
    from Cons.IH [OF this] Inr key show ?thesis by auto
  qed
qed

lemma group_prompts_ok: "group_prompts prompts = Inr g \<Longrightarrow> group_ok g"
  unfolding group_prompts_def by (rule group_into_ok [of "[]"]) (simp_all add: group_ok_def)

lemma group_prompts_all_prompts: "group_prompts prompts = Inr g \<Longrightarrow> mset (all_prompts g) = mset prompts"
  using group_into_all_prompts [of "[]" prompts g]
  by (simp add: group_prompts_def all_prompts_def)

lemma group_prompts_succeeds: "(\<exists>g. group_prompts prompts = Inr g) \<longleftrightarrow> list_all groupable prompts"
  unfolding group_prompts_def by (rule group_into_succeeds) (simp add: group_ok_def)

lemma group_prompts_error: "group_prompts prompts = Inl e \<Longrightarrow> e = TypeError"
  unfolding group_prompts_def by (rule group_into_error)

lemma group_prompts_Nil: "group_prompts [] = Inr []"
  by (simp add: group_prompts_def)

lemma group_prompts_ids:
  "group_prompts prompts = Inr g \<Longrightarrow> mset (map id_field (all_prompts g)) = mset (map id_field prompts)"
  using group_prompts_all_prompts [of prompts g] by (metis mset_map)

lemma group_prompts_distinct_ids:
  "group_prompts prompts = Inr g \<Longrightarrow> distinct (map id_field (all_prompts g)) = distinct (map id_field prompts)"
  using group_prompts_ids [of prompts g] by (metis mset_eq_imp_distinct_iff)


lemma group_prompts_covers:
  assumes "group_prompts prompts = Inr g" and "p \<in> set prompts"
  shows "\<exists>k ps. (k, ps) \<in> set g \<and> p \<in> set ps"
proof -
  from assms(2) have "p \<in># mset prompts" by simp
  with group_prompts_all_prompts [OF assms(1)] have "p \<in> set (all_prompts g)"
    by (metis set_mset_mset)
  then obtain k ps where "(k, ps) \<in> set g" "p \<in> set ps" by (auto simp: all_prompts_def)
  then show ?thesis by blast
qed

lemma loader_groups:
  assumes "loadPromptsFromCleanStructure yaml_load yamlText language = Inr g
      \<or> loadPromptsFromNestedStructure yaml_load yamlText language = Inr g
      \<or> loadPromptsLegacy fetch yaml_load language = Inr g"
  shows "\<exists>prompts. group_prompts prompts = Inr g"
  using assms
  by (auto simp: loadPromptsFromCleanStructure_def loadPromptsFromNestedStructure_def
      loadPromptsLegacy_def bindE_def split: sum.splits)


subsection \<open>Property reads\<close>

text \<open>
  A read by one of the names the loaders write as identifiers is the computed read by
  that name: no prototype has a member of such a name.
\<close>

lemma field_name_index: "\<not> is_array_index (field_name f)"
  by (cases f) (simp_all add: is_array_index_def is_digit_def)

lemma field_name_length: "field_name f \<noteq> ''length''"
  by (cases f) simp_all

lemma field_name_inherited: "inherited K (field_name f) = Data JUndefined"
  by (cases f; cases K) (simp_all add: inherited_def)

lemma js_field_js_get:
  "js_get v (field_name f) = (case js_field v f of Inl e \<Rightarrow> Inl e | Inr x \<Rightarrow> Inr (Data x))"
  by (cases v) (simp_all add: field_name_index field_name_length field_name_inherited split: option.splits)




lemma js_get_error: "js_get v k = Inl e \<Longrightarrow> e = TypeError"
  by (cases v) simp_all

lemma js_field_error: "js_field v f = Inl e \<Longrightarrow> e = TypeError"
  by (cases v) simp_all



subsection \<open>Using and skipping\<close>







subsection \<open>What one element of a document adds\<close>














subsection \<open>Where the collected prompts come from\<close>


lemma collect_empty: "(\<And>x. x \<in> set xs \<Longrightarrow> f x = Inr []) \<Longrightarrow> collect f xs = Inr []"
  by (induction xs) simp_all










subsection \<open>The sample data, evaluated: loading\<close>






lemma sample_cp1_de: "clean_prompt ''B'' (Data (JStr ''Biografie'')) ''de'' sample_cp1 = Inr [sample_b1_de]"
  by code_simp

lemma sample_mp1_de: "nested_prompt [(JStr ''B'', sample_category)] ''de'' sample_mp1 = Inr [sample_b1_de]"
  by code_simp

lemma clean_de: "clean_prompts sample_load ''clean'' ''DE'' = Inr [sample_b1_de, sample_b2_de]"
  by code_simp

lemma nested_de:
  "nested_prompts sample_load ''nested'' ''DE'' = Inr [sample_b1_de, sample_b2_de]"
  by code_simp


lemma clean_de_group:
  "loadPromptsFromCleanStructure sample_load ''clean'' ''DE'' = Inr [(''Biografie'', [sample_b1_de, sample_b2_de])]"
  "loadPrompts (sample_fetch ''clean'') sample_load ''DE'' = Inr [(''Biografie'', [sample_b1_de, sample_b2_de])]"
  by code_simp+

lemma collision_result:
  "loadPromptsFromCleanStructure sample_load ''collision'' ''EN'' =
     Inr [(''B'', [\<lparr>id_field = JStr ''B11'', category = Data (JStr ''B''), prompt = ''One'', purpose = ''First''\<rparr>]),
          (''B1'', [\<lparr>id_field = JStr ''B11'', category = Data (JStr ''B1''), prompt = ''Two'', purpose = ''Second''\<rparr>])]"
  by code_simp

lemma broken_doc:
  "'' zz'' \<in> set (filter (\<lambda>d. trim d \<noteq> []) (split_docs [] ''b1 --- zz''))"
  "legacy_prompt sample_load '' zz'' = Inl YAMLException"
  by code_simp+

lemma group_de:
  "group_prompts [sample_b1_de, sample_b2_de] = Inr [(''Biografie'', [sample_b1_de, sample_b2_de])]"
  by code_simp

lemma nested_de_group:
  "loadPromptsFromNestedStructure sample_load ''nested'' ''DE'' = Inr [(''Biografie'', [sample_b1_de, sample_b2_de])]"
  by code_simp

lemma legacy_en_group:
  "loadPromptsLegacy (sample_fetch ''garbage'') sample_load ''EN'' = Inr [(''Biography'', [sample_b1, sample_b2])]"
  by code_simp

lemma constructor_collected:
  "legacy_prompts constructor_fetch sample_load ''EN'' = Inr [sample_constructor_prompt]"
  "\<not> list_all groupable [sample_constructor_prompt]"
  by code_simp+

subsection \<open>The sample data, evaluated: selection\<close>

lemma sample_doubles:
  "unit_double zero_double" "unit_double half_double" "unit_double rounding_double"
  "unit_double (zero_draws k)" "unit_double (sample_draws k)"
  by (simp_all add: unit_double_def precision_def zero_double_def half_double_def
      rounding_double_def zero_draws_def sample_draws_def)

lemma sample_indices:
  "random_index zero_double n = 0" "random_index half_double 2 = 1"
  "random_index half_double (Suc (Suc 0)) = Suc 0"
  "random_index rounding_double 7 = 4"
  "significand rounding_double * 7 div 2 ^ scale rounding_double = 3"
  by (simp_all add: random_index_def round53_def bit_length.simps precision_def
      zero_double_def half_double_def rounding_double_def)

lemma sample_picks:
  "getRandomPrompt [a, b] zero_double = Some a" "getRandomPrompt [a, b] half_double = Some b"
  "getRandomPrompt [a] zero_double = Some a"
  by (simp_all add: getRandomPrompt_def sample_indices)

lemma twin_draws: "\<forall>k. \<exists>q. getRandomPrompt [sample_b1, sample_twin] (zero_draws k) = Some q \<and> prompt q = prompt sample_b1"
  by (simp add: sample_picks zero_draws_def)

lemma shown_all: "concat (map snd (own_entries (categoryGroups shown_app))) = [sample_b1, sample_b2]"
  by code_simp

lemma sample_find: "findPromptById (categoryGroups sample_app) ''B1'' = Some sample_b1"
  by code_simp

section \<open>Properties of random selection\<close>

text \<open>
  Claim C10. For a non-empty array and a random number that is a double of the range from
  0 to 1, 1 excluded, the sampled index, the floor of the rounded product of the random
  number and the length, is a valid index, and \<^verbatim>\<open>getRandomPrompt\<close> returns the element
  at that index; on the empty array the read is out of range and the result is
  \<^verbatim>\<open>undefined\<close>.
\<close>

theorem getRandomPrompt_in_bounds:
  "(prompts \<noteq> [] \<and> unit_double r \<longrightarrow>
      random_index r (length prompts) < length prompts
      \<and> getRandomPrompt prompts r = Some (prompts ! random_index r (length prompts))
      \<and> prompts ! random_index r (length prompts) \<in> set prompts)
   \<and> getRandomPrompt [] r = None"
proof (intro conjI impI)
  assume a: "prompts \<noteq> [] \<and> unit_double r"
  then have n: "0 < length prompts" and u: "unit_double r" by simp_all
  from random_index_less [OF u n]
  show lt: "random_index r (length prompts) < length prompts" .
  then show "getRandomPrompt prompts r = Some (prompts ! random_index r (length prompts))"
    by (simp add: getRandomPrompt_def)
  from lt show "prompts ! random_index r (length prompts) \<in> set prompts" by simp
next
  show "getRandomPrompt [] r = None" by (simp add: getRandomPrompt_def)
qed

theorem getRandomPrompt_in_bounds_witness:
  "getRandomPrompt [sample_b1, sample_b2] half_double = Some sample_b2
   \<and> significand rounding_double * 7 div 2 ^ scale rounding_double = 3
   \<and> random_index rounding_double (length seven_prompts) = 4
   \<and> getRandomPrompt seven_prompts rounding_double = Some sample_b2
   \<and> getRandomPrompt [] half_double = None"
proof -
  have l: "length seven_prompts = 7" by (simp add: seven_prompts_def)
  from getRandomPrompt_in_bounds [of "[sample_b1, sample_b2]" half_double, THEN conjunct1]
  have a: "getRandomPrompt [sample_b1, sample_b2] half_double = Some sample_b2"
    by (simp add: sample_doubles sample_indices)
  from getRandomPrompt_in_bounds [of seven_prompts rounding_double, THEN conjunct1]
  have b: "getRandomPrompt seven_prompts rounding_double = Some sample_b2"
    by (simp add: sample_doubles sample_indices l) (simp add: seven_prompts_def)
  from getRandomPrompt_in_bounds [of "[]" half_double, THEN conjunct2]
  have c: "getRandomPrompt [] half_double = None" .
  from a b c l sample_indices(4,5) show ?thesis by simp
qed

section \<open>Properties of the loader chain\<close>

text \<open>
  Claim C7. When the unified file cannot be loaded (the fetch is rejected, the status is
  not ok, or both the Clean and the Nested normalizer throw) and the Legacy loader throws,
  \<^verbatim>\<open>loadPrompts\<close> throws the Legacy loader's error. A transport failure of the legacy
  file and an exception on any one legacy document make the Legacy loader throw. A group
  that \<^verbatim>\<open>loadPrompts\<close> returns is the whole result of one normalizer that did not throw.
\<close>

theorem loadPrompts_all_fail:
  "((case fetch ''./journal-prompts.yaml'' of
       Inl e \<Rightarrow> True
     | Inr response \<Rightarrow>
         \<not> ok response
         \<or> (isl (loadPromptsFromCleanStructure yaml_load (body response) language)
            \<and> isl (loadPromptsFromNestedStructure yaml_load (body response) language)))
    \<and> loadPromptsLegacy fetch yaml_load language = Inl e2 \<longrightarrow>
      loadPrompts fetch yaml_load language = Inl e2)
   \<and> (fetch (''./prompts_'' @ language @ ''.yaml'') = Inl e3 \<longrightarrow>
      loadPromptsLegacy fetch yaml_load language = Inl e3)
   \<and> (fetch (''./prompts_'' @ language @ ''.yaml'') = Inr legacyResponse \<and> \<not> ok legacyResponse \<longrightarrow>
      loadPromptsLegacy fetch yaml_load language =
        Inl (Error (''Failed to fetch legacy prompts: '' @ statusText legacyResponse)))
   \<and> (fetch (''./prompts_'' @ language @ ''.yaml'') = Inr legacyResponse \<and> ok legacyResponse
        \<and> doc \<in> set (filter (\<lambda>d. trim d \<noteq> []) (split_docs [] (body legacyResponse)))
        \<and> legacy_prompt yaml_load doc = Inl e4 \<longrightarrow>
      isl (loadPromptsLegacy fetch yaml_load language))
   \<and> (loadPrompts fetch yaml_load language = Inr grouped \<longrightarrow>
      (\<exists>response. fetch ''./journal-prompts.yaml'' = Inr response \<and> ok response
          \<and> (loadPromptsFromCleanStructure yaml_load (body response) language = Inr grouped
             \<or> (isl (loadPromptsFromCleanStructure yaml_load (body response) language)
                \<and> loadPromptsFromNestedStructure yaml_load (body response) language = Inr grouped)))
      \<or> loadPromptsLegacy fetch yaml_load language = Inr grouped)"
proof -
  let ?u = "fetch ''./journal-prompts.yaml''"
  let ?C = "\<lambda>response. loadPromptsFromCleanStructure yaml_load (body response) language"
  let ?N = "\<lambda>response. loadPromptsFromNestedStructure yaml_load (body response) language"
  let ?L = "loadPromptsLegacy fetch yaml_load language"
  have unified: "loadPromptsFromUnified fetch yaml_load language =
      (case ?u of
         Inl e \<Rightarrow> Inl e
       | Inr response \<Rightarrow>
           if ok response then (case ?C response of Inr g \<Rightarrow> Inr g | Inl e \<Rightarrow> ?N response)
           else Inl (Error (''Failed to fetch unified prompts: '' @ statusText response)))"
    by (simp add: loadPromptsFromUnified_def bindE_def)
  have c1: "loadPrompts fetch yaml_load language = Inl e2"
    if a: "(case ?u of Inl e \<Rightarrow> True
            | Inr response \<Rightarrow> \<not> ok response \<or> (isl (?C response) \<and> isl (?N response)))
           \<and> ?L = Inl e2"
  proof (cases ?u)
    case (Inl e)
    with a show ?thesis by (simp add: loadPrompts_def unified)
  next
    case (Inr response)
    show ?thesis
    proof (cases "ok response")
      case False
      with a Inr show ?thesis by (simp add: loadPrompts_def unified)
    next
      case True
      with a Inr obtain ec en where "?C response = Inl ec" "?N response = Inl en"
        by (auto simp: isl_def)
      with a Inr True show ?thesis by (simp add: loadPrompts_def unified)
    qed
  qed
  have c2: "?L = Inl e3" if "fetch (''./prompts_'' @ language @ ''.yaml'') = Inl e3"
    using that by (simp add: loadPromptsLegacy_def legacy_prompts_def)
  have c3: "?L = Inl (Error (''Failed to fetch legacy prompts: '' @ statusText legacyResponse))"
    if "fetch (''./prompts_'' @ language @ ''.yaml'') = Inr legacyResponse \<and> \<not> ok legacyResponse"
    using that by (simp add: loadPromptsLegacy_def legacy_prompts_def)
  have c4: "isl ?L"
    if a: "fetch (''./prompts_'' @ language @ ''.yaml'') = Inr legacyResponse \<and> ok legacyResponse
        \<and> doc \<in> set (filter (\<lambda>d. trim d \<noteq> []) (split_docs [] (body legacyResponse)))
        \<and> legacy_prompt yaml_load doc = Inl e4"
  proof -
    let ?docs = "filter (\<lambda>d. trim d \<noteq> []) (split_docs [] (body legacyResponse))"
    from a have f: "fetch (''./prompts_'' @ language @ ''.yaml'') = Inr legacyResponse"
      and o: "ok legacyResponse" and m: "doc \<in> set ?docs"
      and l: "legacy_prompt yaml_load doc = Inl e4"
      by blast+
    from collect_failure [where f = "legacy_prompt yaml_load", OF m l] obtain e where "collect (legacy_prompt yaml_load) ?docs = Inl e"
      by (cases "collect (legacy_prompt yaml_load) ?docs") simp_all
    with f o show ?thesis by (simp add: loadPromptsLegacy_def legacy_prompts_def)
  qed
  have c5: "(\<exists>response. ?u = Inr response \<and> ok response
          \<and> (?C response = Inr grouped \<or> (isl (?C response) \<and> ?N response = Inr grouped)))
      \<or> ?L = Inr grouped"
    if a: "loadPrompts fetch yaml_load language = Inr grouped"
  proof (cases ?u)
    case (Inl e)
    with a show ?thesis by (simp add: loadPrompts_def unified)
  next
    case (Inr response)
    show ?thesis
    proof (cases "ok response")
      case False
      with a Inr show ?thesis by (simp add: loadPrompts_def unified)
    next
      case True
      show ?thesis
      proof (cases "?C response")
        case (Inr g)
        with a \<open>?u = Inr response\<close> True show ?thesis by (simp add: loadPrompts_def unified)
      next
        case (Inl ec)
        show ?thesis
        proof (cases "?N response")
          case (Inr g)
          with a \<open>?u = Inr response\<close> True Inl show ?thesis by (simp add: loadPrompts_def unified)
        next
          case il: (Inl en)
          with a \<open>?u = Inr response\<close> True Inl show ?thesis by (simp add: loadPrompts_def unified)
        qed
      qed
    qed
  qed
  from c1 c2 c3 c4 c5 show ?thesis by blast
qed

theorem loadPrompts_all_fail_witness:
  "loadPrompts (sample_fetch ''garbage'') sample_load ''FR'' =
     Inl (Error ''Failed to fetch legacy prompts: Not Found'')
   \<and> loadPrompts offline_fetch sample_load ''EN'' = Inl FetchRejected
   \<and> loadPromptsLegacy offline_fetch sample_load ''EN'' = Inl FetchRejected
   \<and> loadPromptsLegacy (sample_fetch ''garbage'') sample_load ''FR'' =
     Inl (Error ''Failed to fetch legacy prompts: Not Found'')
   \<and> isl (loadPromptsLegacy broken_fetch sample_load ''EN'')
   \<and> ((\<exists>response. sample_fetch ''clean'' ''./journal-prompts.yaml'' = Inr response \<and> ok response
          \<and> (loadPromptsFromCleanStructure sample_load (body response) ''DE'' =
                Inr [(''Biografie'', [sample_b1_de, sample_b2_de])]
             \<or> (isl (loadPromptsFromCleanStructure sample_load (body response) ''DE'')
                \<and> loadPromptsFromNestedStructure sample_load (body response) ''DE'' =
                    Inr [(''Biografie'', [sample_b1_de, sample_b2_de])])))
      \<or> loadPromptsLegacy (sample_fetch ''clean'') sample_load ''DE'' =
           Inr [(''Biografie'', [sample_b1_de, sample_b2_de])])"
proof -
  have 1: "sample_fetch ''garbage'' ''./journal-prompts.yaml'' =
      Inr \<lparr>ok = True, statusText = ''OK'', body = ''garbage''\<rparr>"
    by (simp add: sample_fetch_def)
  have 2: "isl (loadPromptsFromCleanStructure sample_load ''garbage'' ''FR'')"
    by code_simp
  have 3: "isl (loadPromptsFromNestedStructure sample_load ''garbage'' ''FR'')"
    by code_simp
  have 5: "offline_fetch ''./journal-prompts.yaml'' = Inl FetchRejected"
    "offline_fetch (''./prompts_'' @ ''EN'' @ ''.yaml'') = Inl FetchRejected"
    by (simp_all add: offline_fetch_def)
  have 7: "sample_fetch ''garbage'' (''./prompts_'' @ ''FR'' @ ''.yaml'') =
      Inr \<lparr>ok = False, statusText = ''Not Found'', body = []\<rparr>"
    by (simp add: sample_fetch_def)
  have 8: "broken_fetch (''./prompts_'' @ ''EN'' @ ''.yaml'') =
      Inr \<lparr>ok = True, statusText = ''OK'', body = ''b1 --- zz''\<rparr>"
    by (simp add: broken_fetch_def)
  from loadPrompts_all_fail [where fetch = offline_fetch and yaml_load = sample_load
      and language = "''EN''" and ?e3.0 = FetchRejected, THEN conjunct2, THEN conjunct1] 5
  have c: "loadPromptsLegacy offline_fetch sample_load ''EN'' = Inl FetchRejected"
    by simp
  from loadPrompts_all_fail [where fetch = "sample_fetch ''garbage''" and yaml_load = sample_load
      and language = "''FR''" and legacyResponse = "\<lparr>ok = False, statusText = ''Not Found'', body = []\<rparr>",
      THEN conjunct2, THEN conjunct2, THEN conjunct1] 7
  have d: "loadPromptsLegacy (sample_fetch ''garbage'') sample_load ''FR'' =
     Inl (Error ''Failed to fetch legacy prompts: Not Found'')"
    by simp
  from loadPrompts_all_fail [where fetch = "sample_fetch ''garbage''" and yaml_load = sample_load
      and language = "''FR''" and ?e2.0 = "Error ''Failed to fetch legacy prompts: Not Found''",
      THEN conjunct1] 1 2 3 d
  have a: "loadPrompts (sample_fetch ''garbage'') sample_load ''FR'' =
     Inl (Error ''Failed to fetch legacy prompts: Not Found'')"
    by simp
  from loadPrompts_all_fail [where fetch = offline_fetch and yaml_load = sample_load
      and language = "''EN''" and ?e2.0 = FetchRejected, THEN conjunct1] 5 c
  have b: "loadPrompts offline_fetch sample_load ''EN'' = Inl FetchRejected"
    by simp
  from loadPrompts_all_fail [where fetch = broken_fetch and yaml_load = sample_load
      and language = "''EN''" and legacyResponse = "\<lparr>ok = True, statusText = ''OK'', body = ''b1 --- zz''\<rparr>"
      and doc = "'' zz''" and ?e4.0 = YAMLException,
      THEN conjunct2, THEN conjunct2, THEN conjunct2, THEN conjunct1] 8 broken_doc
  have e: "isl (loadPromptsLegacy broken_fetch sample_load ''EN'')"
    by simp
  from loadPrompts_all_fail [where fetch = "sample_fetch ''clean''" and yaml_load = sample_load
      and language = "''DE''" and grouped = "[(''Biografie'', [sample_b1_de, sample_b2_de])]",
      THEN conjunct2, THEN conjunct2, THEN conjunct2, THEN conjunct2] clean_de_group(2)
  have f: "(\<exists>response. sample_fetch ''clean'' ''./journal-prompts.yaml'' = Inr response \<and> ok response
          \<and> (loadPromptsFromCleanStructure sample_load (body response) ''DE'' =
                Inr [(''Biografie'', [sample_b1_de, sample_b2_de])]
             \<or> (isl (loadPromptsFromCleanStructure sample_load (body response) ''DE'')
                \<and> loadPromptsFromNestedStructure sample_load (body response) ''DE'' =
                    Inr [(''Biografie'', [sample_b1_de, sample_b2_de])])))
      \<or> loadPromptsLegacy (sample_fetch ''clean'') sample_load ''DE'' =
           Inr [(''Biografie'', [sample_b1_de, sample_b2_de])]"
    by simp
  from a b c d e f show ?thesis
    apply -
    apply (intro conjI)
    apply assumption+
    done
qed

text \<open>
  Claim C2. The chain has no test for an empty group: it moves on only when a normalizer
  throws. A document of the Nested shape does not make the Clean normalizer throw: its
  \<^verbatim>\<open>categories\<close> is an array, which passes the test \<^verbatim>\<open>typeof data.categories !== 'object'\<close>,
  and none of its elements has a \<^verbatim>\<open>prompts\<close> array, so every one is skipped. The Clean
  normalizer returns the empty group, and \<^verbatim>\<open>loadPrompts\<close> returns it; the Nested
  normalizer, which the comments of \<^verbatim>\<open>loadPromptsFromUnified\<close> name as the fallback, is
  not tried. In general, whatever group the Clean normalizer returns is the result.
\<close>

theorem loadPrompts_nested_never_tried:
  "(fetch ''./journal-prompts.yaml'' = Inr response \<and> ok response
      \<and> yaml_load (body response) = Inr data
      \<and> js_field data F_categories = Inr (JArr cs)
      \<and> (\<forall>c\<in>set cs. \<exists>v. js_field c F_prompts = Inr v \<and> \<not> (truthy v \<and> isArray v)) \<longrightarrow>
      loadPromptsFromCleanStructure yaml_load (body response) language = Inr []
      \<and> loadPrompts fetch yaml_load language = Inr [])
   \<and> (fetch ''./journal-prompts.yaml'' = Inr response \<and> ok response
      \<and> loadPromptsFromCleanStructure yaml_load (body response) language = Inr g \<longrightarrow>
      loadPrompts fetch yaml_load language = Inr g)"
proof -
  have final: "loadPrompts fetch yaml_load language = Inr g"
    if "fetch ''./journal-prompts.yaml'' = Inr response \<and> ok response
      \<and> loadPromptsFromCleanStructure yaml_load (body response) language = Inr g" for g
    using that by (simp add: loadPrompts_def loadPromptsFromUnified_def)
  have empty: "loadPromptsFromCleanStructure yaml_load (body response) language = Inr []"
    if a: "yaml_load (body response) = Inr data \<and> js_field data F_categories = Inr (JArr cs)
      \<and> (\<forall>c\<in>set cs. \<exists>v. js_field c F_prompts = Inr v \<and> \<not> (truthy v \<and> isArray v))"
  proof -
    from a have y: "yaml_load (body response) = Inr data"
      and cats: "js_field data F_categories = Inr (JArr cs)"
      and skip: "\<forall>c\<in>set cs. \<exists>v. js_field c F_prompts = Inr v \<and> \<not> (truthy v \<and> isArray v)"
      by blast+
    from cats have t: "truthy data" by (cases data) simp_all
    have "clean_category (toLowerCase language) entry = Inr []"
      if "entry \<in> set (zip (map show_nat [0..<length cs]) cs)" for entry
    proof -
      from that have "snd entry \<in> set cs" by (metis prod.collapse set_zip_rightD)
      with skip obtain v where "js_field (snd entry) F_prompts = Inr v" "\<not> (truthy v \<and> isArray v)"
        by blast
      then show ?thesis by (auto simp: clean_category_def Let_def)
    qed
    then have "collect (clean_category (toLowerCase language)) (zip (map show_nat [0..<length cs]) cs) = Inr []"
      by (rule collect_empty)
    with y cats t have "clean_prompts yaml_load (body response) language = Inr []"
      by (simp add: clean_prompts_def)
    then show ?thesis by (simp add: loadPromptsFromCleanStructure_def group_prompts_Nil)
  qed
  from final empty show ?thesis by blast
qed

theorem loadPrompts_nested_never_tried_witness:
  "loadPromptsFromCleanStructure sample_load ''nested'' ''DE'' = Inr []
   \<and> loadPrompts (sample_fetch ''nested'') sample_load ''DE'' = Inr []
   \<and> loadPromptsFromNestedStructure sample_load ''nested'' ''DE'' =
       Inr [(''Biografie'', [sample_b1_de, sample_b2_de])]"
proof -
  let ?response = "\<lparr>ok = True, statusText = ''OK'', body = ''nested''\<rparr>"
  have 1: "sample_fetch ''nested'' ''./journal-prompts.yaml'' = Inr ?response"
    by (simp add: sample_fetch_def)
  have 2: "sample_load ''nested'' = Inr sample_nested_doc" by (simp add: sample_load_def)
  have 3: "js_field sample_nested_doc F_categories = Inr (JArr [sample_category])"
    by (simp add: sample_nested_doc_def)
  have 4: "\<forall>c\<in>set [sample_category]. \<exists>v. js_field c F_prompts = Inr v \<and> \<not> (truthy v \<and> isArray v)"
    by (simp add: sample_category_def)
  have pre: "sample_fetch ''nested'' ''./journal-prompts.yaml'' = Inr ?response \<and> ok ?response
      \<and> sample_load (body ?response) = Inr sample_nested_doc
      \<and> js_field sample_nested_doc F_categories = Inr (JArr [sample_category])
      \<and> (\<forall>c\<in>set [sample_category]. \<exists>v. js_field c F_prompts = Inr v \<and> \<not> (truthy v \<and> isArray v))"
    by (intro conjI) (rule 1, simp, simp add: 2, rule 3, rule 4)
  note T = loadPrompts_nested_never_tried [where fetch = "sample_fetch ''nested''"
      and yaml_load = sample_load and response = ?response and data = sample_nested_doc
      and cs = "[sample_category]" and language = "''DE''", THEN conjunct1, THEN mp, OF pre]
  from T have a: "loadPromptsFromCleanStructure sample_load ''nested'' ''DE'' = Inr []" by simp
  from T have b: "loadPrompts (sample_fetch ''nested'') sample_load ''DE'' = Inr []" by simp
  have c: "loadPromptsFromNestedStructure sample_load ''nested'' ''DE'' =
       Inr [(''Biografie'', [sample_b1_de, sample_b2_de])]"
    by code_simp
  from a b c show ?thesis by simp
qed

section \<open>Properties of the loaded groups\<close>

text \<open>
  Claim C8, as the code has it. In a group returned by any of the three loaders the keys
  are pairwise different, none is the name of a member of \<^verbatim>\<open>Object.prototype\<close>, no list
  is empty, and every prompt in the list of key \<open>k\<close> has a category that converts to \<open>k\<close>
  (a string category is \<open>k\<close>). Each loader returns the grouping of the prompts it collected.
  The grouping goes through exactly when every category converts to a string that the
  prototype has no member for, and throws a \<open>TypeError\<close> otherwise. It removes no
  duplicate: the group holds exactly the collected prompts, and so its ids are pairwise
  different exactly when the ids of the collected prompts are.
\<close>

theorem loaders_group_by_category:
  "(loadPromptsFromCleanStructure yaml_load yamlText language = Inr g
      \<or> loadPromptsFromNestedStructure yaml_load yamlText language = Inr g
      \<or> loadPromptsLegacy fetch yaml_load language = Inr g \<longrightarrow>
      distinct (map fst g)
      \<and> (\<forall>e\<in>set g. inherited ObjectK (fst e) = Data JUndefined \<and> snd e \<noteq> []
            \<and> (\<forall>p\<in>set (snd e). any_to_string (category p) = Inr (fst e)
                  \<and> (\<forall>c. category p = Data (JStr c) \<longrightarrow> c = fst e))))
   \<and> (clean_prompts yaml_load yamlText language = Inr prompts \<longrightarrow>
        loadPromptsFromCleanStructure yaml_load yamlText language = group_prompts prompts)
   \<and> (nested_prompts yaml_load yamlText language = Inr prompts \<longrightarrow>
        loadPromptsFromNestedStructure yaml_load yamlText language = group_prompts prompts)
   \<and> (legacy_prompts fetch yaml_load language = Inr prompts \<longrightarrow>
        loadPromptsLegacy fetch yaml_load language = group_prompts prompts)
   \<and> ((\<exists>g. group_prompts prompts = Inr g) \<longleftrightarrow> list_all groupable prompts)
   \<and> (\<not> list_all groupable prompts \<longrightarrow> group_prompts prompts = Inl TypeError)
   \<and> (group_prompts prompts = Inr g \<longrightarrow>
        mset (all_prompts g) = mset prompts
        \<and> distinct (map id_field (all_prompts g)) = distinct (map id_field prompts))"
proof -
  have c1: "distinct (map fst g)
      \<and> (\<forall>e\<in>set g. inherited ObjectK (fst e) = Data JUndefined \<and> snd e \<noteq> []
            \<and> (\<forall>p\<in>set (snd e). any_to_string (category p) = Inr (fst e)
                  \<and> (\<forall>c. category p = Data (JStr c) \<longrightarrow> c = fst e)))"
    if a: "loadPromptsFromCleanStructure yaml_load yamlText language = Inr g
      \<or> loadPromptsFromNestedStructure yaml_load yamlText language = Inr g
      \<or> loadPromptsLegacy fetch yaml_load language = Inr g"
  proof -
    from loader_groups [OF a] obtain ps where "group_prompts ps = Inr g" by blast
    from group_prompts_ok [OF this] have ok: "group_ok g" .
    have "c = fst e" if "e \<in> set g" "p \<in> set (snd e)" "category p = Data (JStr c)" for e p c
    proof -
      from ok that(1,2) have "any_to_string (category p) = Inr (fst e)"
        by (auto simp: group_ok_def list_all_iff)
      with that(3) show ?thesis by simp
    qed
    with ok show ?thesis by (auto simp: group_ok_def list_all_iff)
  qed
  have c2: "loadPromptsFromCleanStructure yaml_load yamlText language = group_prompts prompts"
    if "clean_prompts yaml_load yamlText language = Inr prompts"
    using that by (simp add: loadPromptsFromCleanStructure_def)
  have c3: "loadPromptsFromNestedStructure yaml_load yamlText language = group_prompts prompts"
    if "nested_prompts yaml_load yamlText language = Inr prompts"
    using that by (simp add: loadPromptsFromNestedStructure_def)
  have c4: "loadPromptsLegacy fetch yaml_load language = group_prompts prompts"
    if "legacy_prompts fetch yaml_load language = Inr prompts"
    using that by (simp add: loadPromptsLegacy_def)
  note c5 = group_prompts_succeeds [of prompts]
  have c6: "group_prompts prompts = Inl TypeError" if "\<not> list_all groupable prompts"
  proof (cases "group_prompts prompts")
    case (Inl e)
    with group_prompts_error [OF Inl] show ?thesis by simp
  next
    case (Inr g')
    with c5 that show ?thesis by blast
  qed
  have c7: "mset (all_prompts g) = mset prompts
        \<and> distinct (map id_field (all_prompts g)) = distinct (map id_field prompts)"
    if "group_prompts prompts = Inr g"
    using group_prompts_all_prompts [OF that] group_prompts_distinct_ids [OF that] by simp
  from c1 c2 c3 c4 c5 c6 c7 show ?thesis by blast
qed

theorem loaders_group_by_category_witness:
  "loadPromptsFromCleanStructure sample_load ''clean'' ''DE'' = Inr [(''Biografie'', [sample_b1_de, sample_b2_de])]
   \<and> loadPromptsFromNestedStructure sample_load ''nested'' ''DE'' = Inr [(''Biografie'', [sample_b1_de, sample_b2_de])]
   \<and> loadPromptsLegacy (sample_fetch ''garbage'') sample_load ''EN'' = Inr [(''Biography'', [sample_b1, sample_b2])]
   \<and> distinct (map fst [(''Biografie'', [sample_b1_de, sample_b2_de])])
   \<and> any_to_string (category sample_b2_de) = Inr ''Biografie''
   \<and> list_all groupable [sample_b1_de, sample_b2_de]
   \<and> loadPromptsLegacy constructor_fetch sample_load ''EN'' = Inl TypeError
   \<and> mset (all_prompts [(''Biografie'', [sample_b1_de, sample_b2_de])]) = mset [sample_b1_de, sample_b2_de]
   \<and> distinct (map id_field (all_prompts [(''Biografie'', [sample_b1_de, sample_b2_de])]))"
proof -
  let ?ps = "[sample_b1_de, sample_b2_de]"
  let ?g = "[(''Biografie'', [sample_b1_de, sample_b2_de])]"
  note T = loaders_group_by_category [where yaml_load = sample_load and yamlText = "''clean''"
      and language = "''DE''" and prompts = ?ps and g = ?g]
  from T [THEN conjunct2, THEN conjunct1] clean_de group_de
  have a: "loadPromptsFromCleanStructure sample_load ''clean'' ''DE'' = Inr ?g"
    by simp
  from loaders_group_by_category [where yaml_load = sample_load and yamlText = "''nested''"
      and language = "''DE''" and prompts = ?ps, THEN conjunct2, THEN conjunct2, THEN conjunct1]
    nested_de group_de
  have b: "loadPromptsFromNestedStructure sample_load ''nested'' ''DE'' = Inr ?g"
    by simp
  note c = legacy_en_group
  from T [THEN conjunct1] a
  have d: "distinct (map fst ?g)
      \<and> (\<forall>e\<in>set ?g. inherited ObjectK (fst e) = Data JUndefined \<and> snd e \<noteq> []
            \<and> (\<forall>p\<in>set (snd e). any_to_string (category p) = Inr (fst e)
                  \<and> (\<forall>c. category p = Data (JStr c) \<longrightarrow> c = fst e)))"
    by blast
  then have d1: "distinct (map fst ?g)" and d2: "any_to_string (category sample_b2_de) = Inr ''Biografie''"
    by simp_all
  from T [THEN conjunct2, THEN conjunct2, THEN conjunct2, THEN conjunct2, THEN conjunct1] group_de
  have e: "list_all groupable ?ps" by blast
  from loaders_group_by_category [where yaml_load = sample_load and fetch = constructor_fetch
      and language = "''EN''" and prompts = "[sample_constructor_prompt]",
      THEN conjunct2, THEN conjunct2, THEN conjunct2]
  have k1: "legacy_prompts constructor_fetch sample_load ''EN'' = Inr [sample_constructor_prompt] \<longrightarrow>
        loadPromptsLegacy constructor_fetch sample_load ''EN'' = group_prompts [sample_constructor_prompt]"
    and k2: "\<not> list_all groupable [sample_constructor_prompt] \<longrightarrow>
        group_prompts [sample_constructor_prompt] = Inl TypeError"
    by blast+
  from k1 k2 constructor_collected
  have f: "loadPromptsLegacy constructor_fetch sample_load ''EN'' = Inl TypeError" by simp
  from T [THEN conjunct2, THEN conjunct2, THEN conjunct2, THEN conjunct2, THEN conjunct2, THEN conjunct2]
    group_de
  have g: "mset (all_prompts ?g) = mset ?ps"
    and h0: "distinct (map id_field (all_prompts ?g)) = distinct (map id_field ?ps)"
    by simp_all
  have "distinct (map id_field ?ps)" by (simp add: sample_b1_de_def sample_b2_de_def)
  with h0 have h: "distinct (map id_field (all_prompts ?g))" by simp
  from a b c d1 d2 e f g h show ?thesis
    apply -
    apply (intro conjI)
    apply assumption+
    done
qed

text \<open>
  The claim as stated fails on the ids: with no separator between category identifier and
  sequence number, prompt 11 of category \<^verbatim>\<open>B\<close> and prompt 1 of category \<^verbatim>\<open>B1\<close> both
  get the id \<^verbatim>\<open>B11\<close>, and both stay in the group.
\<close>

theorem loaders_keep_duplicate_ids:
  "loadPromptsFromCleanStructure sample_load ''collision'' ''EN'' =
     Inr [(''B'', [\<lparr>id_field = JStr ''B11'', category = Data (JStr ''B''), prompt = ''One'', purpose = ''First''\<rparr>]),
          (''B1'', [\<lparr>id_field = JStr ''B11'', category = Data (JStr ''B1''), prompt = ''Two'', purpose = ''Second''\<rparr>])]
   \<and> \<not> distinct (map id_field (all_prompts
         [(''B'', [\<lparr>id_field = JStr ''B11'', category = Data (JStr ''B''), prompt = ''One'', purpose = ''First''\<rparr>]),
          (''B1'', [\<lparr>id_field = JStr ''B11'', category = Data (JStr ''B1''), prompt = ''Two'', purpose = ''Second''\<rparr>])]))"
  using collision_result by (simp add: all_prompts_def)

text \<open>
  Claim C9, as the code has it. The Clean and the Nested loader give the same result for a
  language code and for its lower-cased form. The Legacy loader puts the code into the
  file name as it is and matches no translation: if the server answers both file names
  alike, its result, and that of the chain, is the same for both forms.
\<close>

theorem language_case_insensitive:
  "loadPromptsFromCleanStructure yaml_load yamlText language =
     loadPromptsFromCleanStructure yaml_load yamlText (toLowerCase language)
   \<and> loadPromptsFromNestedStructure yaml_load yamlText language =
     loadPromptsFromNestedStructure yaml_load yamlText (toLowerCase language)
   \<and> (fetch (''./prompts_'' @ language @ ''.yaml'') = fetch (''./prompts_'' @ toLowerCase language @ ''.yaml'') \<longrightarrow>
        loadPromptsLegacy fetch yaml_load language = loadPromptsLegacy fetch yaml_load (toLowerCase language)
        \<and> loadPrompts fetch yaml_load language = loadPrompts fetch yaml_load (toLowerCase language))"
proof -
  have c: "loadPromptsFromCleanStructure yaml_load t language =
     loadPromptsFromCleanStructure yaml_load t (toLowerCase language)" for t
    unfolding loadPromptsFromCleanStructure_def clean_prompts_def toLowerCase_idem ..
  have n: "loadPromptsFromNestedStructure yaml_load t language =
     loadPromptsFromNestedStructure yaml_load t (toLowerCase language)" for t
    unfolding loadPromptsFromNestedStructure_def nested_prompts_def toLowerCase_idem ..
  have u: "loadPromptsFromUnified fetch yaml_load language =
      loadPromptsFromUnified fetch yaml_load (toLowerCase language)"
    unfolding loadPromptsFromUnified_def c [symmetric] n [symmetric] ..
  have l: "loadPromptsLegacy fetch yaml_load language = loadPromptsLegacy fetch yaml_load (toLowerCase language)"
    if "fetch (''./prompts_'' @ language @ ''.yaml'') = fetch (''./prompts_'' @ toLowerCase language @ ''.yaml'')"
    using that by (simp add: loadPromptsLegacy_def legacy_prompts_def)
  have p: "loadPrompts fetch yaml_load language = loadPrompts fetch yaml_load (toLowerCase language)"
    if "fetch (''./prompts_'' @ language @ ''.yaml'') = fetch (''./prompts_'' @ toLowerCase language @ ''.yaml'')"
    unfolding loadPrompts_def u [symmetric] l [OF that, symmetric] ..
  from c [of yamlText] n [of yamlText] l p show ?thesis by blast
qed

theorem language_case_insensitive_witness:
  "loadPromptsFromCleanStructure sample_load ''clean'' ''De'' =
     loadPromptsFromCleanStructure sample_load ''clean'' ''de''
   \<and> loadPromptsFromNestedStructure sample_load ''nested'' ''De'' =
     loadPromptsFromNestedStructure sample_load ''nested'' ''de''
   \<and> loadPromptsLegacy single_file_fetch sample_load ''EN'' =
     loadPromptsLegacy single_file_fetch sample_load ''en''
   \<and> loadPrompts single_file_fetch sample_load ''EN'' =
     loadPrompts single_file_fetch sample_load ''en''
   \<and> loadPromptsLegacy single_file_fetch sample_load ''en'' =
     Inr [(''Biography'', [sample_b1, sample_b2])]"
proof -
  have 1: "toLowerCase ''De'' = ''de''" by code_simp
  have 2: "toLowerCase ''EN'' = ''en''" by code_simp
  have 3: "single_file_fetch (''./prompts_'' @ ''EN'' @ ''.yaml'') = single_file_fetch (''./prompts_'' @ ''en'' @ ''.yaml'')"
    by (simp add: single_file_fetch_def)
  have 4: "loadPromptsLegacy single_file_fetch sample_load ''en'' =
     Inr [(''Biography'', [sample_b1, sample_b2])]"
    by code_simp
  from language_case_insensitive [where yaml_load = sample_load and yamlText = "''clean''"
      and language = "''De''", THEN conjunct1] 1
  have a: "loadPromptsFromCleanStructure sample_load ''clean'' ''De'' =
     loadPromptsFromCleanStructure sample_load ''clean'' ''de''" by simp
  from language_case_insensitive [where yaml_load = sample_load and yamlText = "''nested''"
      and language = "''De''", THEN conjunct2, THEN conjunct1] 1
  have b: "loadPromptsFromNestedStructure sample_load ''nested'' ''De'' =
     loadPromptsFromNestedStructure sample_load ''nested'' ''de''" by simp
  from language_case_insensitive [where yaml_load = sample_load and fetch = single_file_fetch
      and language = "''EN''", THEN conjunct2, THEN conjunct2] 2 3
  have c: "loadPromptsLegacy single_file_fetch sample_load ''EN'' =
     loadPromptsLegacy single_file_fetch sample_load ''en''"
    and d: "loadPrompts single_file_fetch sample_load ''EN'' =
     loadPrompts single_file_fetch sample_load ''en''" by simp_all
  from a b c d 4 show ?thesis
    apply -
    apply (intro conjI)
    apply assumption+
    done
qed

text \<open>
  The claim as stated fails on the Legacy path: on a server that has
  \<^verbatim>\<open>prompts_EN.yaml\<close> only, the code \<^verbatim>\<open>EN\<close> loads two prompts and its lower-cased form
  fails.
\<close>

theorem legacy_language_case_matters:
  "toLowerCase ''EN'' = ''en''
   \<and> loadPromptsLegacy (sample_fetch ''garbage'') sample_load ''EN'' =
       Inr [(''Biography'', [sample_b1, sample_b2])]
   \<and> loadPromptsLegacy (sample_fetch ''garbage'') sample_load ''en'' =
       Inl (Error ''Failed to fetch legacy prompts: Not Found'')
   \<and> loadPrompts (sample_fetch ''garbage'') sample_load ''EN'' =
       Inr [(''Biography'', [sample_b1, sample_b2])]
   \<and> loadPrompts (sample_fetch ''garbage'') sample_load ''en'' =
       Inl (Error ''Failed to fetch legacy prompts: Not Found'')"
  by code_simp

section \<open>Properties of the selection of a new prompt\<close>

text \<open>
  Claim C3, as the code has it. For a pinned category with more than one prompt and a
  current prompt: a prompt that the selection returns is an element of the list and its
  text differs from the current one's; the selection returns as soon as a draw picks such
  an element; and when every element has the current prompt's text no draw ever does, and
  the loop does not end. A list of exactly one element always yields that element. The
  last part states the same for \<^verbatim>\<open>selectNewPrompt\<close> on the application state.
\<close>

theorem pick_new_prompt_no_repeat:
  "(1 < length prompts \<and> pick_new_prompt prompts (Some cur) rnd = Some (Inr p) \<longrightarrow>
      prompt p \<noteq> prompt cur \<and> p \<in> set prompts)
   \<and> (1 < length prompts
       \<and> (\<forall>k<d. \<exists>q. getRandomPrompt prompts (rnd k) = Some q \<and> prompt q = prompt cur)
       \<and> getRandomPrompt prompts (rnd d) = Some p \<and> prompt p \<noteq> prompt cur \<longrightarrow>
      pick_new_prompt prompts (Some cur) rnd = Some (Inr p))
   \<and> (1 < length prompts \<and> (\<forall>q\<in>set prompts. prompt q = prompt cur)
       \<and> (\<forall>k. unit_double (rnd k)) \<longrightarrow>
      pick_new_prompt prompts (Some cur) rnd = None)
   \<and> (unit_double (rnd 0) \<longrightarrow> pick_new_prompt [q] current rnd = Some (Inr q))
   \<and> (isPinned s \<and> any_truthy (currentCategory s)
       \<and> any_to_string (currentCategory s) = Inr c
       \<and> map_of (categoryGroups s) c = Some prompts
       \<and> currentPrompt s = Some cur \<and> 1 < length prompts
       \<and> selectNewPrompt rnd s = Some (Inr s') \<longrightarrow>
      (\<exists>p\<in>set prompts. currentPrompt s' = Some p \<and> prompt p \<noteq> prompt cur))"
proof -
  have pick: "pick_new_prompt prompts (Some cur) rnd =
      resample prompts cur rnd 1 (getRandomPrompt prompts (rnd 0))" if "1 < length prompts"
    using that by (simp add: pick_new_prompt_def)
  have sound: "prompt p \<noteq> prompt cur \<and> p \<in> set prompts"
    if l: "1 < length prompts" and r: "pick_new_prompt prompts (Some cur) rnd = Some (Inr p)" for p
  proof -
    from l r have "resample prompts cur rnd 1 (getRandomPrompt prompts (rnd 0)) = Some (Inr p)"
      by (simp add: pick)
    from resample_sound [OF this] have "prompt p \<noteq> prompt cur"
      and "getRandomPrompt prompts (rnd 0) = Some p
           \<or> (\<exists>k\<ge>1. getRandomPrompt prompts (rnd k) = Some p)" by simp_all
    then show ?thesis using getRandomPrompt_mem by blast
  qed
  have c2: "pick_new_prompt prompts (Some cur) rnd = Some (Inr p)"
    if l: "1 < length prompts"
      and same: "\<forall>k<d. \<exists>q. getRandomPrompt prompts (rnd k) = Some q \<and> prompt q = prompt cur"
      and hit: "getRandomPrompt prompts (rnd d) = Some p" and diff: "prompt p \<noteq> prompt cur"
  proof (cases d)
    case 0
    with l hit diff show ?thesis by (simp add: pick resample.simps)
  next
    case (Suc d')
    with same obtain q0 where q0: "getRandomPrompt prompts (rnd 0) = Some q0" "prompt q0 = prompt cur"
      by force
    have "\<forall>k<d'. \<exists>q. getRandomPrompt prompts (rnd (1 + k)) = Some q \<and> prompt q = prompt cur"
      using same Suc by simp
    moreover have "getRandomPrompt prompts (rnd (1 + d')) = Some p"
      using hit Suc by simp
    ultimately have "resample prompts cur rnd 1 (Some q0) = Some (Inr p)"
      using resample_finds [of d' prompts rnd 1 cur p q0] diff q0(2) by blast
    with l q0 show ?thesis by (simp add: pick)
  qed
  have c3: "pick_new_prompt prompts (Some cur) rnd = None"
    if l: "1 < length prompts" and same: "\<forall>q\<in>set prompts. prompt q = prompt cur"
      and range: "\<forall>k. unit_double (rnd k)"
  proof -
    from l have ne: "prompts \<noteq> []" by auto
    have all: "\<forall>k. \<exists>q. getRandomPrompt prompts (rnd k) = Some q \<and> prompt q = prompt cur"
    proof
      fix k
      from range have "unit_double (rnd k)" by simp
      from getRandomPrompt_Some [OF ne this] same
      show "\<exists>q. getRandomPrompt prompts (rnd k) = Some q \<and> prompt q = prompt cur" by blast
    qed
    then obtain q0 where q0: "getRandomPrompt prompts (rnd 0) = Some q0" "prompt q0 = prompt cur"
      by blast
    from resample_diverges [OF all q0(2)] l q0(1) show ?thesis by (simp add: pick)
  qed
  have c4: "pick_new_prompt [q] current rnd = Some (Inr q)" if "unit_double (rnd 0)"
    using that by (cases current) (simp_all add: pick_new_prompt_def getRandomPrompt_singleton)
  have c5: "\<exists>p\<in>set prompts. currentPrompt s' = Some p \<and> prompt p \<noteq> prompt cur"
    if a: "isPinned s \<and> any_truthy (currentCategory s)
       \<and> any_to_string (currentCategory s) = Inr c
       \<and> map_of (categoryGroups s) c = Some prompts
       \<and> currentPrompt s = Some cur \<and> 1 < length prompts
       \<and> selectNewPrompt rnd s = Some (Inr s')"
  proof -
    let ?s1 = "s\<lparr>wasOpenedWithDeepLink := False, search := no_params\<rparr>"
    from a have a1: "isPinned s" and a2: "any_truthy (currentCategory s)"
      and a3: "any_to_string (currentCategory s) = Inr c"
      and a3': "map_of (categoryGroups s) c = Some prompts"
      and a4: "currentPrompt s = Some cur" and a5: "1 < length prompts"
      and a6: "selectNewPrompt rnd s = Some (Inr s')"
      by blast+
    from a6 a1 a2 a3 a3' a4 have sel: "(case pick_new_prompt prompts (Some cur) rnd of
                   None \<Rightarrow> None
                 | Some (Inl e) \<Rightarrow> Some (Inl e)
                 | Some (Inr newPrompt) \<Rightarrow> Some (displayPrompt newPrompt ?s1)) = Some (Inr s')"
      by (simp add: selectNewPrompt_def clearUrl_def Let_def group_get_def)
    then obtain p where p: "pick_new_prompt prompts (Some cur) rnd = Some (Inr p)"
      and s': "displayPrompt p ?s1 = Inr s'"
      by (auto split: option.splits sum.splits)
    from a5 p sound have "prompt p \<noteq> prompt cur \<and> p \<in> set prompts" by blast
    with displayPrompt_fields(1) [OF s'] show ?thesis by simp
  qed
  from sound c2 c3 c4 c5 show ?thesis by blast
qed

theorem pick_new_prompt_no_repeat_witness:
  "pick_new_prompt [sample_b1, sample_b2] (Some sample_b1) sample_draws = Some (Inr sample_b2)
   \<and> prompt sample_b2 \<noteq> prompt sample_b1 \<and> sample_b2 \<in> set [sample_b1, sample_b2]
   \<and> pick_new_prompt [sample_b1, sample_twin] (Some sample_b1) sample_draws = None
   \<and> pick_new_prompt [sample_b1] (Some sample_b1) zero_draws = Some (Inr sample_b1)
   \<and> selectNewPrompt sample_draws pinned_app = Some (Inr (pinned_app\<lparr>currentPrompt := Some sample_b2\<rparr>))
   \<and> (\<exists>p\<in>set [sample_b1, sample_b2].
         currentPrompt (pinned_app\<lparr>currentPrompt := Some sample_b2\<rparr>) = Some p
         \<and> prompt p \<noteq> prompt sample_b1)"
proof -
  have 1: "\<forall>k<2. \<exists>q. getRandomPrompt [sample_b1, sample_b2] (sample_draws k) = Some q
      \<and> prompt q = prompt sample_b1"
    by (simp add: sample_picks sample_draws_def)
  have 2: "getRandomPrompt [sample_b1, sample_b2] (sample_draws 2) = Some sample_b2"
    by (simp add: sample_picks sample_draws_def)
  have 3: "prompt sample_b2 \<noteq> prompt sample_b1"
    by (simp add: sample_b1_def sample_b2_def)
  from pick_new_prompt_no_repeat [where prompts = "[sample_b1, sample_b2]" and cur = sample_b1
      and rnd = sample_draws and d = 2 and p = sample_b2, THEN conjunct2, THEN conjunct1] 1 2 3
  have a: "pick_new_prompt [sample_b1, sample_b2] (Some sample_b1) sample_draws = Some (Inr sample_b2)"
    by simp
  from pick_new_prompt_no_repeat [where prompts = "[sample_b1, sample_b2]" and cur = sample_b1
      and rnd = sample_draws and p = sample_b2, THEN conjunct1] a
  have b: "prompt sample_b2 \<noteq> prompt sample_b1 \<and> sample_b2 \<in> set [sample_b1, sample_b2]"
    by simp
  have 4: "\<forall>q\<in>set [sample_b1, sample_twin]. prompt q = prompt sample_b1"
    by (simp add: sample_b1_def sample_twin_def)
  have 5: "\<forall>k. unit_double (sample_draws k)"
    by (simp add: sample_doubles)
  have pre: "1 < length [sample_b1, sample_twin]
      \<and> (\<forall>q\<in>set [sample_b1, sample_twin]. prompt q = prompt sample_b1)
      \<and> (\<forall>k. unit_double (sample_draws k))"
    by (intro conjI) (simp, rule 4, rule 5)
  have c: "pick_new_prompt [sample_b1, sample_twin] (Some sample_b1) sample_draws = None"
    by (rule pick_new_prompt_no_repeat [where prompts = "[sample_b1, sample_twin]" and cur = sample_b1
      and rnd = sample_draws, THEN conjunct2, THEN conjunct2, THEN conjunct1, THEN mp, OF pre])
  from pick_new_prompt_no_repeat [where rnd = zero_draws and q = sample_b1 and current = "Some sample_b1",
      THEN conjunct2, THEN conjunct2, THEN conjunct2, THEN conjunct1]
  have d: "pick_new_prompt [sample_b1] (Some sample_b1) zero_draws = Some (Inr sample_b1)"
    by (simp add: sample_doubles)
  have 6: "any_to_string (currentCategory pinned_app) = Inr ''Biography''"
    "map_of (categoryGroups pinned_app) ''Biography'' = Some [sample_b1, sample_b2]"
    "isPinned pinned_app" "any_truthy (currentCategory pinned_app)" "currentPrompt pinned_app = Some sample_b1"
    by (simp_all add: pinned_app_def)
  from a have e: "selectNewPrompt sample_draws pinned_app =
      Some (Inr (pinned_app\<lparr>currentPrompt := Some sample_b2\<rparr>))"
    by (simp add: selectNewPrompt_def Let_def pinned_app_def clearUrl_def displayPrompt_def
        no_params_def sample_b2_def group_get_def)
  from pick_new_prompt_no_repeat [where s = pinned_app and prompts = "[sample_b1, sample_b2]"
      and c = "''Biography''"
      and cur = sample_b1 and rnd = sample_draws and s' = "pinned_app\<lparr>currentPrompt := Some sample_b2\<rparr>",
      THEN conjunct2, THEN conjunct2, THEN conjunct2, THEN conjunct2] 6 e
  have f: "\<exists>p\<in>set [sample_b1, sample_b2].
         currentPrompt (pinned_app\<lparr>currentPrompt := Some sample_b2\<rparr>) = Some p
         \<and> prompt p \<noteq> prompt sample_b1"
    by simp
  from a b [THEN conjunct1] b [THEN conjunct2] c d e f show ?thesis
    apply -
    apply (intro conjI)
    apply assumption+
    done
qed

text \<open>
  The claim as stated fails where the two prompts of the pinned category carry the same
  text: the loop of \<^verbatim>\<open>selectNewPrompt\<close> never ends, whatever is drawn.
\<close>

theorem resample_never_returns:
  "pick_new_prompt [sample_b1, sample_twin] (Some sample_b1) zero_draws = None
   \<and> selectNewPrompt zero_draws twin_app = None"
proof -
  have 0: "getRandomPrompt [sample_b1, sample_twin] (zero_draws 0) = Some sample_b1"
    by (simp add: sample_picks zero_draws_def)
  have 1: "resample [sample_b1, sample_twin] sample_b1 zero_draws 1 (Some sample_b1) = None"
    by (rule resample_diverges [OF twin_draws]) simp
  with 0 have 2: "pick_new_prompt [sample_b1, sample_twin] (Some sample_b1) zero_draws = None"
    by (simp add: pick_new_prompt_def)
  then have "selectNewPrompt zero_draws twin_app = None"
    by (simp add: selectNewPrompt_def twin_app_def clearUrl_def Let_def group_get_def)
  with 2 show ?thesis by simp
qed

text \<open>
  Claim C4, as the code has it. The selection over all categories makes one draw from the
  concatenation of all lists and shows the element at the drawn index; the current prompt
  plays no part, so when the draw picks the current prompt it is shown again. An unpinned
  \<^verbatim>\<open>selectNewPrompt\<close> is exactly this selection, made after the link state was reset.
\<close>

theorem loadRandomPromptFromAnyCategory_no_exclusion:
  "(concat (map snd (own_entries (categoryGroups s))) = allPrompts \<and> allPrompts \<noteq> []
      \<and> unit_double r \<and> \<not> wasOpenedWithDeepLink s \<longrightarrow>
      random_index r (length allPrompts) < length allPrompts
      \<and> loadRandomPromptFromAnyCategory r s =
          Inr (s\<lparr>currentPrompt := Some (allPrompts ! random_index r (length allPrompts)),
                 currentCategory := category (allPrompts ! random_index r (length allPrompts))\<rparr>))
   \<and> (concat (map snd (own_entries (categoryGroups s))) = allPrompts \<and> allPrompts \<noteq> []
      \<and> unit_double r \<longrightarrow>
      loadRandomPromptFromAnyCategory r s =
        displayPrompt (allPrompts ! random_index r (length allPrompts))
          (s\<lparr>currentCategory := category (allPrompts ! random_index r (length allPrompts))\<rparr>))
   \<and> (concat (map snd (own_entries (categoryGroups s))) = allPrompts
      \<and> getRandomPrompt allPrompts r = currentPrompt s \<and> currentPrompt s \<noteq> None
      \<and> \<not> wasOpenedWithDeepLink s \<longrightarrow>
      (\<exists>s'. loadRandomPromptFromAnyCategory r s = Inr s' \<and> currentPrompt s' = currentPrompt s))
   \<and> (isPinned s \<and> any_truthy (currentCategory s)
      \<or> selectNewPrompt rnd s =
           Some (loadRandomPromptFromAnyCategory (rnd 0) (clearUrl (s\<lparr>wasOpenedWithDeepLink := False\<rparr>))))
   \<and> (\<not> (isPinned s \<and> any_truthy (currentCategory s))
      \<and> concat (map snd (own_entries (categoryGroups s))) = allPrompts \<and> allPrompts \<noteq> []
      \<and> unit_double (rnd 0) \<longrightarrow>
      (\<exists>s'. selectNewPrompt rnd s = Some (Inr s')
         \<and> currentPrompt s' = Some (allPrompts ! random_index (rnd 0) (length allPrompts))))"
proof -
  let ?all = "concat (map snd (own_entries (categoryGroups s)))"
  have c2': "loadRandomPromptFromAnyCategory r s =
        displayPrompt (allPrompts ! random_index r (length allPrompts))
          (s\<lparr>currentCategory := category (allPrompts ! random_index r (length allPrompts))\<rparr>)"
    if a: "concat (map snd (own_entries (categoryGroups s))) = allPrompts \<and> allPrompts \<noteq> [] \<and> unit_double r"
      for r :: Double and s :: App and allPrompts
  proof -
    from a have e: "concat (map snd (own_entries (categoryGroups s))) = allPrompts"
      and ne: "allPrompts \<noteq> []" and u: "unit_double r"
      by blast+
    from getRandomPrompt_index [OF ne u] e ne show ?thesis
      by (simp add: loadRandomPromptFromAnyCategory_def)
  qed
  have c1: "random_index r (length allPrompts) < length allPrompts
      \<and> loadRandomPromptFromAnyCategory r s =
          Inr (s\<lparr>currentPrompt := Some (allPrompts ! random_index r (length allPrompts)),
                 currentCategory := category (allPrompts ! random_index r (length allPrompts))\<rparr>)"
    if a: "?all = allPrompts \<and> allPrompts \<noteq> [] \<and> unit_double r \<and> \<not> wasOpenedWithDeepLink s"
  proof -
    from a have ne: "allPrompts \<noteq> []" and u: "unit_double r" and w: "\<not> wasOpenedWithDeepLink s"
      by blast+
    from ne u have "random_index r (length allPrompts) < length allPrompts"
      by (simp add: random_index_less)
    moreover from a have "?all = allPrompts \<and> allPrompts \<noteq> [] \<and> unit_double r" by blast
    from c2' [OF this] w have "loadRandomPromptFromAnyCategory r s =
          Inr (s\<lparr>currentPrompt := Some (allPrompts ! random_index r (length allPrompts)),
                 currentCategory := category (allPrompts ! random_index r (length allPrompts))\<rparr>)"
      by (simp add: displayPrompt_plain)
    ultimately show ?thesis by simp
  qed
  have c3: "\<exists>s'. loadRandomPromptFromAnyCategory r s = Inr s' \<and> currentPrompt s' = currentPrompt s"
    if a: "?all = allPrompts \<and> getRandomPrompt allPrompts r = currentPrompt s \<and> currentPrompt s \<noteq> None
      \<and> \<not> wasOpenedWithDeepLink s"
  proof -
    from a obtain p where p: "currentPrompt s = Some p" "getRandomPrompt allPrompts r = Some p"
      and e: "?all = allPrompts" and w: "\<not> wasOpenedWithDeepLink s" by auto
    from p(2) have "p \<in> set allPrompts" by (rule getRandomPrompt_mem)
    then have "0 < length allPrompts" by (cases allPrompts) auto
    with e p have "loadRandomPromptFromAnyCategory r s =
        displayPrompt p (s\<lparr>currentCategory := category p\<rparr>)"
      by (simp add: loadRandomPromptFromAnyCategory_def)
    with p w show ?thesis by (simp add: displayPrompt_plain)
  qed
  have c4: "isPinned s \<and> any_truthy (currentCategory s)
      \<or> selectNewPrompt rnd s =
           Some (loadRandomPromptFromAnyCategory (rnd 0) (clearUrl (s\<lparr>wasOpenedWithDeepLink := False\<rparr>)))"
    by (auto simp: selectNewPrompt_def clearUrl_def Let_def)
  have c5: "\<exists>s'. selectNewPrompt rnd s = Some (Inr s')
         \<and> currentPrompt s' = Some (allPrompts ! random_index (rnd 0) (length allPrompts))"
    if a: "\<not> (isPinned s \<and> any_truthy (currentCategory s))
      \<and> ?all = allPrompts \<and> allPrompts \<noteq> [] \<and> unit_double (rnd 0)"
  proof -
    let ?s1 = "clearUrl (s\<lparr>wasOpenedWithDeepLink := False\<rparr>)"
    let ?p = "allPrompts ! random_index (rnd 0) (length allPrompts)"
    from a c4 have sel: "selectNewPrompt rnd s = Some (loadRandomPromptFromAnyCategory (rnd 0) ?s1)"
      by blast
    from a have "concat (map snd (own_entries (categoryGroups ?s1))) = allPrompts \<and> allPrompts \<noteq> []
        \<and> unit_double (rnd 0)"
      by (simp add: clearUrl_def)
    from c2' [OF this] have "loadRandomPromptFromAnyCategory (rnd 0) ?s1 =
        displayPrompt ?p (?s1\<lparr>currentCategory := category ?p\<rparr>)" .
    also have "\<dots> = Inr (?s1\<lparr>currentCategory := category ?p, currentPrompt := Some ?p, currentCategory := category ?p\<rparr>)"
      by (simp add: displayPrompt_plain clearUrl_def)
    finally show ?thesis using sel by simp
  qed
  from c1 c2' [of s allPrompts r] c3 c4 c5 show ?thesis by blast
qed

theorem loadRandomPromptFromAnyCategory_no_exclusion_witness:
  "loadRandomPromptFromAnyCategory half_double shown_app =
     Inr (shown_app\<lparr>currentPrompt := Some sample_b2\<rparr>)
   \<and> (\<exists>s'. loadRandomPromptFromAnyCategory zero_double shown_app = Inr s'
          \<and> currentPrompt s' = currentPrompt shown_app)
   \<and> selectNewPrompt sample_draws shown_app = Some (loadRandomPromptFromAnyCategory zero_double shown_app)
   \<and> (\<exists>s'. selectNewPrompt sample_draws shown_app = Some (Inr s') \<and> currentPrompt s' = Some sample_b1)"
proof -
  have w: "\<not> wasOpenedWithDeepLink shown_app" by (simp add: shown_app_def)
  from loadRandomPromptFromAnyCategory_no_exclusion [where s = shown_app and r = half_double
        and allPrompts = "[sample_b1, sample_b2]", THEN conjunct1] shown_all w
  have a: "loadRandomPromptFromAnyCategory half_double shown_app = Inr (shown_app\<lparr>currentPrompt := Some sample_b2\<rparr>)"
    by (simp add: sample_doubles sample_indices) (simp add: shown_app_def sample_b2_def)
  have 0: "getRandomPrompt [sample_b1, sample_b2] zero_double = currentPrompt shown_app"
    "currentPrompt shown_app \<noteq> None"
    by (simp_all add: sample_picks shown_app_def)
  from loadRandomPromptFromAnyCategory_no_exclusion [where s = shown_app and r = zero_double
        and allPrompts = "[sample_b1, sample_b2]", THEN conjunct2, THEN conjunct2, THEN conjunct1]
    shown_all 0 w
  have b: "\<exists>s'. loadRandomPromptFromAnyCategory zero_double shown_app = Inr s'
          \<and> currentPrompt s' = currentPrompt shown_app"
    by simp
  have 1: "\<not> isPinned shown_app" by (simp add: shown_app_def)
  have 2: "clearUrl (shown_app\<lparr>wasOpenedWithDeepLink := False\<rparr>) = shown_app"
    by (simp add: shown_app_def clearUrl_def)
  from loadRandomPromptFromAnyCategory_no_exclusion [where s = shown_app and rnd = sample_draws,
      THEN conjunct2, THEN conjunct2, THEN conjunct2, THEN conjunct1] 1 2
  have c: "selectNewPrompt sample_draws shown_app = Some (loadRandomPromptFromAnyCategory zero_double shown_app)"
    by (simp add: sample_draws_def)
  from loadRandomPromptFromAnyCategory_no_exclusion [where s = shown_app and rnd = sample_draws
      and allPrompts = "[sample_b1, sample_b2]",
      THEN conjunct2, THEN conjunct2, THEN conjunct2, THEN conjunct2] 1 shown_all
  have d: "\<exists>s'. selectNewPrompt sample_draws shown_app = Some (Inr s') \<and> currentPrompt s' = Some sample_b1"
    by (simp add: sample_doubles) (simp add: sample_draws_def sample_indices)
  from a b c d show ?thesis
    apply -
    apply (intro conjI)
    apply assumption+
    done
qed

text \<open>
  The claim as stated fails: with two prompts in the catalog and the first one shown, a
  draw of \<open>0\<close> shows the first one again.
\<close>

theorem any_category_repeats_current:
  "currentPrompt shown_app = Some sample_b1
   \<and> concat (map snd (own_entries (categoryGroups shown_app))) = [sample_b1, sample_b2]
   \<and> loadRandomPromptFromAnyCategory zero_double shown_app = Inr shown_app
   \<and> selectNewPrompt zero_draws shown_app = Some (Inr shown_app)"
proof -
  have 1: "loadRandomPromptFromAnyCategory zero_double shown_app = Inr shown_app"
    using shown_all
    by (simp add: loadRandomPromptFromAnyCategory_def sample_picks displayPrompt_def
        shown_app_def sample_b1_def)
  have 2: "clearUrl (shown_app\<lparr>wasOpenedWithDeepLink := False\<rparr>) = shown_app"
    by (simp add: shown_app_def clearUrl_def)
  have 3: "\<not> isPinned (clearUrl (shown_app\<lparr>wasOpenedWithDeepLink := False\<rparr>))"
    by (simp add: shown_app_def clearUrl_def)
  have "selectNewPrompt zero_draws shown_app = Some (loadRandomPromptFromAnyCategory zero_double shown_app)"
    using 2 3 by (simp add: selectNewPrompt_def Let_def zero_draws_def)
  with 1 shown_all show ?thesis by (simp add: shown_app_def)
qed

section \<open>Properties of deep links\<close>

text \<open>
  Claim C5, as the code has it. When the address carries a non-empty \<^verbatim>\<open>id\<close> that
  \<^verbatim>\<open>findPromptById\<close> finds, \<^verbatim>\<open>handleDeepLink\<close> returns true and shows that prompt with
  its category, whatever the other parameters, the decoder and the random number are; the
  address is rewritten to that id alone, and the pinned flag keeps the value it had.
\<close>

theorem handleDeepLink_id_first:
  "id_param (search s) = Some i \<and> i \<noteq> [] \<and> findPromptById (categoryGroups s) i = Some p \<longrightarrow>
     (\<exists>s'. handleDeepLink decode r s = Inr (True, s')
        \<and> currentPrompt s' = Some p
        \<and> currentCategory s' = category p
        \<and> wasOpenedWithDeepLink s'
        \<and> search s' = \<lparr>id_param = Some i, category_param = None, prompt_param = None\<rparr>
        \<and> categoryGroups s' = categoryGroups s
        \<and> isPinned s' = isPinned s)"
proof
  assume a: "id_param (search s) = Some i \<and> i \<noteq> [] \<and> findPromptById (categoryGroups s) i = Some p"
  then have a1: "id_param (search s) = Some i" and a2: "i \<noteq> []"
    and a3: "findPromptById (categoryGroups s) i = Some p" by blast+
  from a3 have idp: "id_field p = JStr i" by (rule findPromptById_id)
  let ?s1 = "s\<lparr>wasOpenedWithDeepLink := True, currentCategory := category p\<rparr>"
  from a1 a2 a3 have "handleDeepLink decode r s =
      bindE (displayPrompt p ?s1) (\<lambda>s1. Inr (True, s1))"
    by (simp add: handleDeepLink_def Let_def)
  moreover have "wasOpenedWithDeepLink ?s1" by simp
  note displayPrompt_linked [OF this idp]
  ultimately have "handleDeepLink decode r s =
      Inr (True, ?s1\<lparr>currentPrompt := Some p, currentCategory := category p,
              search := \<lparr>id_param = Some i, category_param = None, prompt_param = None\<rparr>\<rparr>)"
    by simp
  then show "\<exists>s'. handleDeepLink decode r s = Inr (True, s')
        \<and> currentPrompt s' = Some p
        \<and> currentCategory s' = category p
        \<and> wasOpenedWithDeepLink s'
        \<and> search s' = \<lparr>id_param = Some i, category_param = None, prompt_param = None\<rparr>
        \<and> categoryGroups s' = categoryGroups s
        \<and> isPinned s' = isPinned s"
    by simp
qed

theorem handleDeepLink_id_first_witness:
  "id_param (search sample_app) = Some ''B1''
   \<and> category_param (search sample_app) = Some ''Biography''
   \<and> prompt_param (search sample_app) = Some ''Write''
   \<and> findPromptById (categoryGroups sample_app) ''B1'' = Some sample_b1
   \<and> fst (projr (handleDeepLink sample_decode zero_double sample_app))
   \<and> currentPrompt (snd (projr (handleDeepLink sample_decode zero_double sample_app))) = Some sample_b1"
proof -
  have 1: "id_param (search sample_app) = Some ''B1''" 
    and 2: "category_param (search sample_app) = Some ''Biography''"
    and 3: "prompt_param (search sample_app) = Some ''Write''"
    by (simp_all add: sample_app_def)
  from handleDeepLink_id_first [where s = sample_app and i = "''B1''" and p = sample_b1
      and decode = sample_decode and r = zero_double] 1 sample_find
  obtain s' where "handleDeepLink sample_decode zero_double sample_app = Inr (True, s')"
    and "currentPrompt s' = Some sample_b1" by auto
  with 1 2 3 sample_find show ?thesis by simp
qed

text \<open>
  The claim as stated fails on the pinned flag: a link by id into an unpinned application
  leaves it unpinned. It also fails for the empty id: \<^verbatim>\<open>findPromptById\<close> finds the
  prompt whose id is the empty string, and the link is not resolved.
\<close>

theorem deep_link_by_id_leaves_unpinned:
  "handleDeepLink sample_decode zero_double sample_app =
     Inr (True,
       \<lparr>categoryGroups = [(''Biography'', [sample_b1, sample_b2])],
        currentCategory = Data (JStr ''Biography''), currentPrompt = Some sample_b1,
        isPinned = False, wasOpenedWithDeepLink = True,
        search = \<lparr>id_param = Some ''B1'', category_param = None, prompt_param = None\<rparr>\<rparr>)
   \<and> findPromptById (categoryGroups blank_app) [] = Some sample_blank
   \<and> handleDeepLink sample_decode zero_double blank_app = Inr (False, blank_app)"
proof -
  have 1: "handleDeepLink sample_decode zero_double sample_app =
     Inr (True,
       \<lparr>categoryGroups = [(''Biography'', [sample_b1, sample_b2])],
        currentCategory = Data (JStr ''Biography''), currentPrompt = Some sample_b1,
        isPinned = False, wasOpenedWithDeepLink = True,
        search = \<lparr>id_param = Some ''B1'', category_param = None, prompt_param = None\<rparr>\<rparr>)"
    using sample_find
    by (simp add: handleDeepLink_def Let_def sample_app_def displayPrompt_def updateUrl_def sample_b1_def)
  have 2: "findPromptById (categoryGroups blank_app) [] = Some sample_blank"
    by code_simp
  have 3: "handleDeepLink sample_decode zero_double blank_app = Inr (False, blank_app)"
    by (simp add: handleDeepLink_def Let_def blank_app_def)
  from 1 2 3 show ?thesis by simp
qed

section \<open>Properties of the normalizers\<close>








end
